theory Spec2Isabelle
  imports Main "HOL-Library.Word"
begin

section \<open>Python values shared by the scripts\<close>

text \<open>
  The scripts are Python 3.  Strings are modelled as \<open>string\<close>, Python's unbounded integers
  as \<open>int\<close>, and every exception the modelled code can raise is a value of \<open>py_exception\<close>.
  A provider client error carries its error code (\<open>e.response['Error']['Code']\<close>) and the
  text that \<open>str(e)\<close> prints; every other exception only carries its text.
\<close>

datatype py_exception =
    ClientError string string
  | IndexError
  | UnboundLocalError string
  | AttributeError string
  | OtherException string

text \<open>The result of a call that either returns a value or raises.\<close>

datatype 'a outcome = Returns 'a | Raises py_exception

fun exc_str :: "py_exception \<Rightarrow> string" where
  "exc_str (ClientError code msg) = msg"
| "exc_str IndexError = ''list index out of range''"
| "exc_str (UnboundLocalError msg) = msg"
| "exc_str (AttributeError msg) = msg"
| "exc_str (OtherException msg) = msg"

fun is_client_error :: "py_exception \<Rightarrow> bool" where
  "is_client_error (ClientError code msg) = True"
| "is_client_error e = False"

subsection \<open>The string methods the scripts call\<close>

definition LF :: char where
  "LF = CHR 0x0A"

definition CR :: char where
  "CR = CHR 0x0D"

text \<open>\<open>line.startswith(p)\<close>.\<close>

definition str_startswith :: "string \<Rightarrow> string \<Rightarrow> bool" where
  "str_startswith s p = (take (length p) s = p)"

text \<open>
  \<open>s.split(sep)\<close> for a separator of one character (the scripts split at a line feed and
  at \<open>=\<close>): every occurrence of the separator ends a piece, so the result has one piece more
  than \<open>s\<close> has separators.
\<close>

fun str_split :: "char \<Rightarrow> string \<Rightarrow> string list" where
  "str_split sep [] = [[]]"
| "str_split sep (c # cs) =
     (if c = sep then [] # str_split sep cs
      else (case str_split sep cs of
              [] \<Rightarrow> [[c]]
            | w # ws \<Rightarrow> (c # w) # ws))"

text \<open>\<open>xs[i]\<close> for a non-negative index: out of range raises \<open>IndexError\<close>.\<close>

definition py_index :: "'a list \<Rightarrow> nat \<Rightarrow> 'a outcome" where
  "py_index xs i = (if i < length xs then Returns (xs ! i) else Raises IndexError)"

text \<open>
  \<open>s.replace(old, new)\<close>: the occurrences of \<open>old\<close> are replaced from left to right without
  overlap; an empty \<open>old\<close> matches before every character and at the end.
\<close>

function str_replace :: "string \<Rightarrow> string \<Rightarrow> string \<Rightarrow> string" where
  "str_replace old new s =
     (if old = [] then new @ concat (map (\<lambda>c. c # new) s)
      else if s = [] then []
      else if take (length old) s = old
           then new @ str_replace old new (drop (length old) s)
      else hd s # str_replace old new (tl s))"
  by pat_completeness auto
termination
  by (relation "measure (\<lambda>(old, new, s). length s)") auto

declare str_replace.simps [simp del]

text \<open>
  Reading a file opened with \<open>open(name, 'r')\<close>: Python's universal newlines turn each
  \<open>CR LF\<close> pair and each lone \<open>CR\<close> of the file into one \<open>LF\<close> before \<open>f.read()\<close>
  returns the text.  Writing with \<open>open(name, 'w')\<close> stores a line feed as the platform's
  line separator, which is the line feed itself on the POSIX systems modelled here, and
  every other character as it is.
\<close>

fun text_read :: "string \<Rightarrow> string" where
  "text_read [] = []"
| "text_read [c] = (if c = CR then [LF] else [c])"
| "text_read (c # d # ds) =
     (if c = CR \<and> d = LF then LF # text_read ds
      else if c = CR then LF # text_read (d # ds)
      else c # text_read (d # ds))"

definition text_write :: "string \<Rightarrow> string" where
  "text_write s = s"

section \<open>Configuration files\<close>

text \<open>
  The files on disk: a name has a stored text or none.  Opening a missing file raises
  (\<open>FileNotFoundError\<close>, which is not a client error).
\<close>

type_synonym files = "string \<Rightarrow> string option"

definition read_file :: "files \<Rightarrow> string \<Rightarrow> string outcome" where
  "read_file fs name =
     (case fs name of
        None \<Rightarrow> Raises (OtherException ''FileNotFoundError'')
      | Some stored \<Rightarrow> Returns (text_read stored))"

definition write_file :: "files \<Rightarrow> string \<Rightarrow> string \<Rightarrow> files" where
  "write_file fs name s = fs(name := Some (text_write s))"

text \<open>
  A local variable that a loop may or may not assign is \<open>None\<close> while it is unbound.
  Using an unbound local raises \<open>UnboundLocalError\<close>.
\<close>

definition use_local :: "string \<Rightarrow> 'a option \<Rightarrow> 'a outcome" where
  "use_local name v =
     (case v of None \<Rightarrow> Raises (UnboundLocalError name) | Some x \<Rightarrow> Returns x)"

text \<open>
  The body of the loop over the lines, as written in every script that reads two values
  from a configuration file:
  \<^verbatim>\<open>
  if line.startswith('SOURCE_BUCKET='):
      source_bucket = line.split('=')[1]
  elif line.startswith('SOURCE_REGION='):
      source_region = line.split('=')[1]
  \<close>
  \<open>key1\<close> and \<open>key2\<close> are the two prefixes, the state is the pair of variables.
\<close>

definition assign_from_line ::
  "string \<Rightarrow> string \<Rightarrow> string \<Rightarrow> string option \<times> string option
     \<Rightarrow> (string option \<times> string option) outcome" where
  "assign_from_line key1 key2 line vars =
     (if str_startswith line key1 then
        (case py_index (str_split CHR ''='' line) 1 of
           Raises e \<Rightarrow> Raises e
         | Returns v \<Rightarrow> Returns (Some v, snd vars))
      else if str_startswith line key2 then
        (case py_index (str_split CHR ''='' line) 1 of
           Raises e \<Rightarrow> Raises e
         | Returns v \<Rightarrow> Returns (fst vars, Some v))
      else Returns vars)"

text \<open>The loop body of \<open>load_configuration\<close> for \<open>dynamodb-info.txt\<close>, which reads one value.\<close>

definition assign_one_from_line ::
  "string \<Rightarrow> string \<Rightarrow> string option \<Rightarrow> string option outcome" where
  "assign_one_from_line key1 line var =
     (if str_startswith line key1 then
        (case py_index (str_split CHR ''='' line) 1 of
           Raises e \<Rightarrow> Raises e
         | Returns v \<Rightarrow> Returns (Some v))
      else Returns var)"

text \<open>\<open>for line in lines: body\<close>, stopping at the first exception.\<close>

fun for_lines ::
  "(string \<Rightarrow> 's \<Rightarrow> 's outcome) \<Rightarrow> string list \<Rightarrow> 's \<Rightarrow> 's outcome" where
  "for_lines body [] s = Returns s"
| "for_lines body (line # rest) s =
     (case body line s of
        Raises e \<Rightarrow> Raises e
      | Returns s' \<Rightarrow> for_lines body rest s')"

text \<open>The loop over \<open>content.split('\n')\<close> with both variables unbound at the start.\<close>

definition parse_pairs ::
  "string \<Rightarrow> string \<Rightarrow> string \<Rightarrow> (string option \<times> string option) outcome" where
  "parse_pairs key1 key2 content =
     for_lines (assign_from_line key1 key2) (str_split LF content) (None, None)"

record s3_target =
  bucket :: string
  region :: string

record table_target =
  table :: string
  table_region :: string

subsection \<open>\<open>s3-bulk-migration.py\<close>: \<open>main\<close> up to the end of its \<open>try\<close> block\<close>

definition bulk_target_configs :: "string \<Rightarrow> s3_target list" where
  "bulk_target_configs source_bucket =
     [\<lparr>bucket = str_replace ''source'' ''target-us-west-2'' source_bucket,
        region = ''us-west-2''\<rparr>,
      \<lparr>bucket = str_replace ''source'' ''target-eu-west-1'' source_bucket,
        region = ''eu-west-1''\<rparr>]"

text \<open>
  The result is what \<open>main\<close> passes to \<open>S3BulkMigrator\<close>: source bucket, source region and
  target configurations.  An exception inside the \<open>try\<close> block (the file cannot be opened,
  or a variable is used that no line has assigned: the \<open>print\<close> of the block reads both)
  makes \<open>main\<close> return \<open>False\<close>.
\<close>

definition bulk_main_config :: "files \<Rightarrow> (string \<times> string \<times> s3_target list) outcome" where
  "bulk_main_config fs =
     (case read_file fs ''bucket-info.txt'' of
        Raises e \<Rightarrow> Raises e
      | Returns content \<Rightarrow>
     (case parse_pairs ''SOURCE_BUCKET='' ''SOURCE_REGION='' content of
        Raises e \<Rightarrow> Raises e
      | Returns vars \<Rightarrow>
          (case use_local ''source_bucket'' (fst vars) of
             Raises e \<Rightarrow> Raises e
           | Returns source_bucket \<Rightarrow>
               (case use_local ''source_region'' (snd vars) of
                  Raises e \<Rightarrow> Raises e
                | Returns source_region \<Rightarrow>
                    Returns (source_bucket, source_region,
                             bulk_target_configs source_bucket)))))"

subsection \<open>\<open>setup-s3-replication.py\<close>: \<open>main\<close> up to the call of \<open>S3ReplicationSetup\<close>\<close>

definition replication_target_configs :: "string \<Rightarrow> s3_target list" where
  "replication_target_configs source_bucket =
     [\<lparr>bucket = str_replace ''source'' ''target-us-west-2'' source_bucket,
        region = ''us-west-2''\<rparr>,
      \<lparr>bucket = str_replace ''source'' ''target-eu-west-1'' source_bucket,
        region = ''eu-west-1''\<rparr>]"

text \<open>
  Here the \<open>try\<close> block reads \<open>source_bucket\<close> only; an unbound \<open>source_region\<close> is raised
  by the call after the block, where nothing catches it.
\<close>

definition replication_main_config :: "files \<Rightarrow> (string \<times> string \<times> s3_target list) outcome" where
  "replication_main_config fs =
     (case read_file fs ''bucket-info.txt'' of
        Raises e \<Rightarrow> Raises e
      | Returns content \<Rightarrow>
     (case parse_pairs ''SOURCE_BUCKET='' ''SOURCE_REGION='' content of
        Raises e \<Rightarrow> Raises e
      | Returns vars \<Rightarrow>
          (case use_local ''source_bucket'' (fst vars) of
             Raises e \<Rightarrow> Raises e
           | Returns source_bucket \<Rightarrow>
               (let target_configs = replication_target_configs source_bucket in
                case use_local ''source_region'' (snd vars) of
                  Raises e \<Rightarrow> Raises e
                | Returns source_region \<Rightarrow>
                    Returns (source_bucket, source_region, target_configs)))))"

subsection \<open>\<open>dynamodb-stream-sync.py\<close>: \<open>main\<close> up to the call of \<open>DynamoDBStreamSync\<close>\<close>

definition stream_sync_target_configs :: "table_target list" where
  "stream_sync_target_configs =
     [\<lparr>table = ''migration-demo-target-us-west-2-user-data'', table_region = ''us-west-2''\<rparr>,
      \<lparr>table = ''migration-demo-target-eu-west-1-user-data'', table_region = ''eu-west-1''\<rparr>]"

definition stream_sync_main_config ::
  "files \<Rightarrow> (string \<times> string \<times> table_target list) outcome" where
  "stream_sync_main_config fs =
     (case read_file fs ''dynamodb-info.txt'' of
        Raises e \<Rightarrow> Raises e
      | Returns content \<Rightarrow>
     (case parse_pairs ''SOURCE_TABLE='' ''SOURCE_REGION='' content of
        Raises e \<Rightarrow> Raises e
      | Returns vars \<Rightarrow>
          (case use_local ''source_table'' (fst vars) of
             Raises e \<Rightarrow> Raises e
           | Returns source_table \<Rightarrow>
               (case use_local ''source_region'' (snd vars) of
                  Raises e \<Rightarrow> Raises e
                | Returns source_region \<Rightarrow>
                    Returns (source_table, source_region, stream_sync_target_configs)))))"

subsection \<open>\<open>create-dynamodb-python.py\<close>: the save step of \<open>main\<close>\<close>

text \<open>
  \<^verbatim>\<open>
  with open('dynamodb-info.txt', 'w') as f:
      f.write(f"SOURCE_TABLE={source_table}\n")
      f.write(f"SOURCE_REGION={source_region}\n")
      f.write("TARGET_TABLES=(\n")
      for region in target_regions:
          f.write(f"    {project_name}-target-{region}-user-data\n")
      f.write(")\n")
  \<close>
  with \<open>project_name = "migration-demo"\<close> and \<open>target_regions = ["us-west-2", "eu-west-1"]\<close>.
  In \<open>main\<close> the two variables are \<open>"migration-demo-user-data"\<close> and \<open>"us-east-1"\<close>.
\<close>

definition table_info_text :: "string \<Rightarrow> string \<Rightarrow> string" where
  "table_info_text source_table source_region =
     ''SOURCE_TABLE='' @ source_table @ [LF]
     @ ''SOURCE_REGION='' @ source_region @ [LF]
     @ ''TARGET_TABLES=('' @ [LF]
     @ concat (map (\<lambda>region. ''    '' @ ''migration-demo'' @ ''-target-'' @ region
                                @ ''-user-data'' @ [LF])
                   [''us-west-2'', ''eu-west-1''])
     @ '')'' @ [LF]"

definition save_table_info :: "string \<Rightarrow> string \<Rightarrow> files \<Rightarrow> files" where
  "save_table_info source_table source_region fs =
     write_file fs ''dynamodb-info.txt'' (table_info_text source_table source_region)"

definition create_tables_main_save :: "files \<Rightarrow> files" where
  "create_tables_main_save fs = save_table_info ''migration-demo-user-data'' ''us-east-1'' fs"

subsection \<open>\<open>complete-migration-validation.py\<close>: \<open>load_configuration\<close>\<close>

definition validator_s3_target_configs :: "string \<Rightarrow> s3_target list" where
  "validator_s3_target_configs source_bucket =
     [\<lparr>bucket = str_replace ''source'' ''target-us-west-2'' source_bucket,
        region = ''us-west-2''\<rparr>,
      \<lparr>bucket = str_replace ''source'' ''target-eu-west-1'' source_bucket,
        region = ''eu-west-1''\<rparr>]"

definition validator_dynamodb_target_configs :: "table_target list" where
  "validator_dynamodb_target_configs =
     [\<lparr>table = ''migration-demo-target-us-west-2-user-data'', table_region = ''us-west-2''\<rparr>,
      \<lparr>table = ''migration-demo-target-eu-west-1-user-data'', table_region = ''eu-west-1''\<rparr>]"

text \<open>
  The attributes of a validator after a \<open>load_configuration\<close> that returned \<open>True\<close>.  Only
  \<open>source_bucket\<close> is read inside the method, so \<open>source_region\<close> and \<open>source_table\<close> may
  still be missing (\<open>None\<close>) when it returns.
\<close>

record validator =
  v_source_bucket :: string
  v_source_region :: "string option"
  v_source_table :: "string option"
  s3_targets :: "s3_target list"
  dynamodb_targets :: "table_target list"

text \<open>\<open>Raises\<close> is the exception that the method catches before it returns \<open>False\<close>.\<close>

definition load_configuration :: "files \<Rightarrow> validator outcome" where
  "load_configuration fs =
     (case read_file fs ''bucket-info.txt'' of
        Raises e \<Rightarrow> Raises e
      | Returns content \<Rightarrow>
     (case parse_pairs ''SOURCE_BUCKET='' ''SOURCE_REGION='' content of
        Raises e \<Rightarrow> Raises e
      | Returns vars \<Rightarrow>
     (case read_file fs ''dynamodb-info.txt'' of
        Raises e \<Rightarrow> Raises e
      | Returns content2 \<Rightarrow>
     (case for_lines (assign_one_from_line ''SOURCE_TABLE='') (str_split LF content2) None of
        Raises e \<Rightarrow> Raises e
      | Returns source_table \<Rightarrow>
     (case fst vars of
        None \<Rightarrow> Raises (AttributeError ''source_bucket'')
      | Some source_bucket \<Rightarrow>
          Returns \<lparr>v_source_bucket = source_bucket, v_source_region = snd vars,
                   v_source_table = source_table,
                   s3_targets = validator_s3_target_configs source_bucket,
                   dynamodb_targets = validator_dynamodb_target_configs\<rparr>)))))"

subsection \<open>The configuration values as the specification words them\<close>

text \<open>
  The target list: the two targets are the source bucket name with \<open>source\<close> replaced by
  \<open>target-us-west-2\<close> and by \<open>target-eu-west-1\<close>, paired with the regions of those names.
\<close>

definition spec_target_pairs :: "string \<Rightarrow> (string \<times> string) list" where
  "spec_target_pairs source_bucket =
     map (\<lambda>r. (str_replace ''source'' (''target-'' @ r) source_bucket, r))
         [''us-west-2'', ''eu-west-1'']"

definition target_pairs :: "s3_target list \<Rightarrow> (string \<times> string) list" where
  "target_pairs ts = map (\<lambda>t. (bucket t, region t)) ts"

text \<open>The last of the lines that begin with a prefix, if there is one.\<close>

fun last_line_with :: "string \<Rightarrow> string list \<Rightarrow> string option" where
  "last_line_with p [] = None"
| "last_line_with p (l # ls) =
     (case last_line_with p ls of
        Some x \<Rightarrow> Some x
      | None \<Rightarrow> (if str_startswith l p then Some l else None))"

text \<open>
  The text of a line after its first \<open>=\<close> (the full value of a \<open>key=value\<close> line), and that
  text cut at its own first \<open>=\<close>.
\<close>

definition full_value :: "string \<Rightarrow> string" where
  "full_value line = drop 1 (dropWhile (\<lambda>c. c \<noteq> CHR ''='') line)"

definition cut_value :: "string \<Rightarrow> string" where
  "cut_value line = takeWhile (\<lambda>c. c \<noteq> CHR ''='') (full_value line)"

section \<open>\<open>s3-bulk-migration.py\<close>: the class \<open>S3BulkMigrator\<close>\<close>

text \<open>
  An entry of a listing page (\<open>Key\<close>, \<open>Size\<close>, \<open>LastModified\<close>, \<open>ETag\<close>); \<open>list_all_objects\<close>
  copies the four fields into its own dictionary, which is the same record here.
\<close>

record obj_info =
  key :: string
  size_bytes :: int
  last_modified :: string
  etag :: string

text \<open>A page of \<open>list_objects_v2\<close> has a \<open>Contents\<close> list or none.\<close>

type_synonym page = "obj_info list option"

text \<open>
  What a paginator yields: the pages delivered, and the exception that ended the
  iteration, if one did.
\<close>

type_synonym pagination = "page list \<times> py_exception option"

definition page_objects :: "page list \<Rightarrow> obj_info list" where
  "page_objects pages = concat (map (\<lambda>p. case p of None \<Rightarrow> [] | Some contents \<Rightarrow> contents) pages)"

text \<open>
  The requests a migrator sends: the paginated listing of the source bucket, \<open>head_object\<close>
  on the source (bucket, key), and \<open>copy_object\<close> through the client of a target region
  (region, source bucket, key, target bucket).
\<close>

datatype s3_request =
    ListObjectsV2 string
  | HeadObject string string
  | CopyObject string string string string

text \<open>
  The provider as the migrator sees it.  The outcome of a request may depend on the
  requests sent before it (the first argument of \<open>respond\<close>), so a transient failure and
  an object that disappears after the listing are both covered.
\<close>

record s3_service =
  make_client :: "string \<Rightarrow> unit outcome"
  paginate :: "string \<Rightarrow> pagination"
  respond :: "s3_request list \<Rightarrow> s3_request \<Rightarrow> unit outcome"

record stats =
  total_objects :: nat
  successful_copies :: nat
  failed_copies :: nat
  bytes_transferred :: int
  errors :: "string list"

text \<open>
  The fields of a migrator, with \<open>requests\<close> added: the requests it has sent so far, oldest
  first.  \<open>start_time\<close> is left out (no result depends on it).
\<close>

record migrator =
  source_bucket :: string
  source_region :: string
  target_configs :: "s3_target list"
  stats :: stats
  requests :: "s3_request list"

definition S3BulkMigrator_init :: "string \<Rightarrow> string \<Rightarrow> s3_target list \<Rightarrow> migrator" where
  "S3BulkMigrator_init sb sr tcs =
     \<lparr>source_bucket = sb, source_region = sr, target_configs = tcs,
      stats = \<lparr>total_objects = 0, successful_copies = 0, failed_copies = 0,
               bytes_transferred = 0, errors = []\<rparr>,
      requests = []\<rparr>"

definition send :: "s3_service \<Rightarrow> s3_request \<Rightarrow> migrator \<Rightarrow> unit outcome \<times> migrator" where
  "send svc rq m = (respond svc (requests m) rq, m\<lparr>requests := requests m @ [rq]\<rparr>)"

text \<open>
  \<open>list_all_objects\<close>: a client error anywhere in the pagination gives the empty list (the
  pages read before it are dropped, \<open>total_objects\<close> is not set); any other exception
  leaves the method.
\<close>

definition list_all_objects :: "s3_service \<Rightarrow> migrator \<Rightarrow> obj_info list outcome \<times> migrator" where
  "list_all_objects svc m =
     (let m1 = m\<lparr>requests := requests m @ [ListObjectsV2 (source_bucket m)]\<rparr> in
      case paginate svc (source_bucket m) of
        (pages, None) \<Rightarrow>
          (let objects = page_objects pages in
           (Returns objects, m1\<lparr>stats := (stats m1)\<lparr>total_objects := length objects\<rparr>\<rparr>))
      | (pages, Some e) \<Rightarrow>
          (if is_client_error e then (Returns [], m1) else (Raises e, m1)))"

text \<open>The \<open>except ClientError\<close> branch of \<open>copy_object_to_target\<close>; other exceptions pass.\<close>

definition copy_failed ::
  "obj_info \<Rightarrow> s3_target \<Rightarrow> py_exception \<Rightarrow> migrator \<Rightarrow> bool outcome \<times> migrator" where
  "copy_failed obj_info target_config e m =
     (if is_client_error e then
        (let error_msg = ''Failed to copy '' @ key obj_info @ '' to '' @ bucket target_config
                           @ '': '' @ exc_str e in
         (Returns False,
          m\<lparr>stats := (stats m)\<lparr>failed_copies := failed_copies (stats m) + 1,
                                errors := errors (stats m) @ [error_msg]\<rparr>\<rparr>))
      else (Raises e, m))"

definition copy_object_to_target ::
  "s3_service \<Rightarrow> obj_info \<Rightarrow> s3_target \<Rightarrow> migrator \<Rightarrow> bool outcome \<times> migrator" where
  "copy_object_to_target svc obj_info target_config m =
     (case make_client svc (region target_config) of
        Raises e \<Rightarrow> copy_failed obj_info target_config e m
      | Returns u \<Rightarrow>
          (case send svc (HeadObject (source_bucket m) (key obj_info)) m of
             (Raises e, m1) \<Rightarrow> copy_failed obj_info target_config e m1
           | (Returns u1, m1) \<Rightarrow>
               (case send svc (CopyObject (region target_config) (source_bucket m)
                                 (key obj_info) (bucket target_config)) m1 of
                  (Raises e, m2) \<Rightarrow> copy_failed obj_info target_config e m2
                | (Returns u2, m2) \<Rightarrow>
                    (Returns True,
                     m2\<lparr>stats := (stats m2)
                          \<lparr>successful_copies := successful_copies (stats m2) + 1,
                           bytes_transferred :=
                             bytes_transferred (stats m2) + size_bytes obj_info\<rparr>\<rparr>))))"

text \<open>
  The loop of \<open>migrate_object_to_all_targets\<close> with its local list \<open>results\<close>; an exception
  of \<open>copy_object_to_target\<close> ends the loop and leaves the method.
\<close>

fun migrate_loop ::
  "s3_service \<Rightarrow> obj_info \<Rightarrow> s3_target list \<Rightarrow> bool list \<Rightarrow> migrator
     \<Rightarrow> bool list outcome \<times> migrator" where
  "migrate_loop svc obj_info [] results m = (Returns results, m)"
| "migrate_loop svc obj_info (target_config # rest) results m =
     (case copy_object_to_target svc obj_info target_config m of
        (Raises e, m1) \<Rightarrow> (Raises e, m1)
      | (Returns success, m1) \<Rightarrow> migrate_loop svc obj_info rest (results @ [success]) m1)"

definition migrate_object_to_all_targets ::
  "s3_service \<Rightarrow> obj_info \<Rightarrow> migrator \<Rightarrow> bool outcome \<times> migrator" where
  "migrate_object_to_all_targets svc obj_info m =
     (case migrate_loop svc obj_info (target_configs m) [] m of
        (Raises e, m1) \<Rightarrow> (Raises e, m1)
      | (Returns results, m1) \<Rightarrow> (Returns (list_all (\<lambda>b. b) results), m1))"

text \<open>
  The worker pool: one task per listed object.  The tasks are modelled as running one
  after the other in the order of the listing (every update of \<open>stats\<close> is made under
  \<open>stats_lock\<close> in the source); an exception of a task is caught where its future is
  read, and only printed.
\<close>

fun run_pool :: "s3_service \<Rightarrow> obj_info list \<Rightarrow> migrator \<Rightarrow> migrator" where
  "run_pool svc [] m = m"
| "run_pool svc (obj # objects) m =
     run_pool svc objects (snd (migrate_object_to_all_targets svc obj m))"

definition run_migration :: "s3_service \<Rightarrow> migrator \<Rightarrow> bool outcome \<times> migrator" where
  "run_migration svc m =
     (case list_all_objects svc m of
        (Raises e, m1) \<Rightarrow> (Raises e, m1)
      | (Returns objects, m1) \<Rightarrow>
          (if objects = [] then (Returns False, m1)
           else (let m2 = run_pool svc objects m1 in
                 (Returns (failed_copies (stats m2) = 0), m2))))"

text \<open>
  Any sequence of calls of \<open>copy_object_to_target\<close> on one migrator (the calls of all
  workers, in the order in which they take effect), with the result of each call.
\<close>

fun copy_calls ::
  "s3_service \<Rightarrow> (obj_info \<times> s3_target) list \<Rightarrow> migrator \<Rightarrow> bool outcome list \<times> migrator" where
  "copy_calls svc [] m = ([], m)"
| "copy_calls svc ((obj_info, target_config) # rest) m =
     (case copy_object_to_target svc obj_info target_config m of
        (r, m1) \<Rightarrow> (case copy_calls svc rest m1 of (rs, m2) \<Rightarrow> (r # rs, m2)))"

text \<open>A call is completed when it has returned; its copy succeeded when it returned \<open>True\<close>.\<close>

fun completed :: "bool outcome \<Rightarrow> bool" where
  "completed (Returns b) = True"
| "completed (Raises e) = False"

definition bytes_of_succeeded :: "(obj_info \<times> s3_target) list \<Rightarrow> bool outcome list \<Rightarrow> int" where
  "bytes_of_succeeded cs rs =
     sum_list (map (\<lambda>(c, r). if r = Returns True then size_bytes (fst c) else 0) (zip cs rs))"

subsection \<open>One attempt per target, as the specification words it\<close>

text \<open>
  What one attempt to copy an object to a target sends, read off the provider's answers:
  nothing when the client of the target region cannot be made, the \<open>head_object\<close> request
  alone when that request is refused, and otherwise the \<open>head_object\<close> request followed by
  one \<open>copy_object\<close> request to the target, which returns or not.  The attempt succeeded
  exactly when the \<open>copy_object\<close> request returned.
\<close>

datatype attempt = NoRequest | HeadOnly | HeadAndCopy bool

fun attempt_ok :: "attempt \<Rightarrow> bool" where
  "attempt_ok (HeadAndCopy ok) = ok"
| "attempt_ok a = False"

definition attempt_requests :: "string \<Rightarrow> string \<Rightarrow> s3_target \<Rightarrow> attempt \<Rightarrow> s3_request list" where
  "attempt_requests sb k t a =
     (case a of
        NoRequest \<Rightarrow> []
      | HeadOnly \<Rightarrow> [HeadObject sb k]
      | HeadAndCopy ok \<Rightarrow> [HeadObject sb k, CopyObject (region t) sb k (bucket t)])"

definition attempt_of :: "s3_service \<Rightarrow> s3_request list \<Rightarrow> string \<Rightarrow> string \<Rightarrow> s3_target \<Rightarrow> attempt" where
  "attempt_of svc h sb k t =
     (case make_client svc (region t) of
        Raises e \<Rightarrow> NoRequest
      | Returns u \<Rightarrow>
          (case respond svc h (HeadObject sb k) of
             Raises e \<Rightarrow> HeadOnly
           | Returns u1 \<Rightarrow>
               HeadAndCopy (respond svc (h @ [HeadObject sb k])
                              (CopyObject (region t) sb k (bucket t)) = Returns ())))"

text \<open>
  The attempts for a list of targets: one per target, in the order of the list, each made
  after the requests of the attempts before it, whether those succeeded or not.
\<close>

fun attempts :: "s3_service \<Rightarrow> s3_request list \<Rightarrow> string \<Rightarrow> string \<Rightarrow> s3_target list \<Rightarrow> attempt list" where
  "attempts svc h sb k [] = []"
| "attempts svc h sb k (t # ts) =
     (let a = attempt_of svc h sb k t in
      a # attempts svc (h @ attempt_requests sb k t a) sb k ts)"

text \<open>
  The provider never raises anything but a client error: the only exception that
  \<open>copy_object_to_target\<close> catches.
\<close>

definition only_client_errors :: "s3_service \<Rightarrow> bool" where
  "only_client_errors svc =
     ((\<forall>r e. make_client svc r = Raises e \<longrightarrow> is_client_error e) \<and>
      (\<forall>h rq e. respond svc h rq = Raises e \<longrightarrow> is_client_error e))"

subsection \<open>The copy attempts of a run\<close>

text \<open>
  The migrator as \<open>list_all_objects\<close> leaves it when the listing went through, and the copy
  attempts that a run has to make then: every listed object to every target, object by
  object in the order of the listing, the targets of an object in the order of
  \<open>target_configs\<close>.
\<close>

definition after_listing :: "migrator \<Rightarrow> obj_info list \<Rightarrow> migrator" where
  "after_listing m objects =
     m\<lparr>requests := requests m @ [ListObjectsV2 (source_bucket m)],
       stats := (stats m)\<lparr>total_objects := length objects\<rparr>\<rparr>"

definition all_copy_attempts :: "obj_info list \<Rightarrow> s3_target list \<Rightarrow> (obj_info \<times> s3_target) list" where
  "all_copy_attempts objects targets =
     concat (map (\<lambda>obj_info. map (\<lambda>target_config. (obj_info, target_config)) targets) objects)"

subsection \<open>Concrete providers and inputs\<close>

definition demo_targets :: "s3_target list" where
  "demo_targets = [\<lparr>bucket = ''demo-target-us-west-2'', region = ''us-west-2''\<rparr>,
                   \<lparr>bucket = ''demo-target-eu-west-1'', region = ''eu-west-1''\<rparr>]"

definition demo_object :: obj_info where
  "demo_object = \<lparr>key = ''a.txt'', size_bytes = 7, last_modified = ''2024-01-01'', etag = ''e1''\<rparr>"

definition demo_migrator :: migrator where
  "demo_migrator = S3BulkMigrator_init ''demo-source'' ''us-east-1'' demo_targets"

fun is_copy_to :: "string \<Rightarrow> s3_request \<Rightarrow> bool" where
  "is_copy_to r (CopyObject r' sb k tb) = (r = r')"
| "is_copy_to r rq = False"

definition svc_listing :: "pagination \<Rightarrow> (s3_request \<Rightarrow> unit outcome) \<Rightarrow> s3_service" where
  "svc_listing pg answer =
     \<lparr>make_client = (\<lambda>r. Returns ()), paginate = (\<lambda>b. pg), respond = (\<lambda>h rq. answer rq)\<rparr>"

definition answer_denied_west :: "s3_request \<Rightarrow> unit outcome" where
  "answer_denied_west rq =
     (if is_copy_to ''us-west-2'' rq then Raises (ClientError ''AccessDenied'' ''Access Denied'')
      else Returns ())"

definition answer_unreachable_west :: "s3_request \<Rightarrow> unit outcome" where
  "answer_unreachable_west rq =
     (if is_copy_to ''us-west-2'' rq then Raises (OtherException ''EndpointConnectionError'')
      else Returns ())"

definition answer_ok :: "s3_request \<Rightarrow> unit outcome" where
  "answer_ok rq = Returns ()"

section \<open>Error codes that mean "already done"\<close>

subsection \<open>\<open>create-dynamodb-python.py\<close>: \<open>create_dynamodb_table\<close>\<close>

text \<open>
  The calls the function makes: the client of a region, \<open>create_table\<close> and the wait for the
  table (region and table name as arguments).
\<close>

record dynamodb_admin =
  dynamodb_client :: "string \<Rightarrow> unit outcome"
  create_table :: "string \<Rightarrow> string \<Rightarrow> unit outcome"
  wait_table_exists :: "string \<Rightarrow> string \<Rightarrow> unit outcome"

text \<open>The \<open>try\<close> block: the first call that raises ends it.\<close>

definition create_dynamodb_table_try :: "dynamodb_admin \<Rightarrow> string \<Rightarrow> string \<Rightarrow> unit outcome" where
  "create_dynamodb_table_try db table_name rgn =
     (case dynamodb_client db rgn of
        Raises e \<Rightarrow> Raises e
      | Returns u \<Rightarrow>
          (case create_table db rgn table_name of
             Raises e \<Rightarrow> Raises e
           | Returns u1 \<Rightarrow> wait_table_exists db rgn table_name))"

text \<open>
  The two handlers: \<open>except ClientError\<close> compares the error code, \<open>except Exception\<close> takes
  everything else.
\<close>

definition create_dynamodb_table :: "dynamodb_admin \<Rightarrow> string \<Rightarrow> string \<Rightarrow> bool" where
  "create_dynamodb_table db table_name rgn =
     (case create_dynamodb_table_try db table_name rgn of
        Returns u \<Rightarrow> True
      | Raises e \<Rightarrow>
          (case e of
             ClientError code msg \<Rightarrow>
               (if code = ''ResourceInUseException'' then True else False)
           | _ \<Rightarrow> False))"

subsection \<open>\<open>cleanup-resources.py\<close>: \<open>delete_all_object_versions\<close>\<close>

text \<open>
  An entry of \<open>Versions\<close> or \<open>DeleteMarkers\<close> is a key with a version id.  The response of
  \<open>list_object_versions\<close> has each of the two lists or not.
\<close>

type_synonym version_entry = "string \<times> string"

record versions_response =
  Versions :: "version_entry list option"
  DeleteMarkers :: "version_entry list option"

record s3_cleanup =
  list_object_versions :: "string \<Rightarrow> versions_response outcome"
  delete_object :: "string \<Rightarrow> string \<Rightarrow> string \<Rightarrow> unit outcome"
  delete_bucket :: "string \<Rightarrow> unit outcome"

text \<open>
  The function returns nothing; what it does with an error shows in the lines it prints.
  A loop deletes the entries in order and prints one line per deleted entry.
\<close>

fun delete_entries ::
  "s3_cleanup \<Rightarrow> string \<Rightarrow> string \<Rightarrow> version_entry list \<Rightarrow> string list
     \<Rightarrow> unit outcome \<times> string list" where
  "delete_entries s3 bucket_name what [] printed = (Returns (), printed)"
| "delete_entries s3 bucket_name what ((k, vid) # rest) printed =
     (case delete_object s3 bucket_name k vid of
        Raises e \<Rightarrow> (Raises e, printed)
      | Returns u \<Rightarrow>
          delete_entries s3 bucket_name what rest
            (printed @ [''Deleted '' @ what @ '': '' @ k @ '' ('' @ vid @ '')'']))"

definition delete_all_object_versions_try ::
  "s3_cleanup \<Rightarrow> string \<Rightarrow> unit outcome \<times> string list" where
  "delete_all_object_versions_try s3 bucket_name =
     (case list_object_versions s3 bucket_name of
        Raises e \<Rightarrow> (Raises e, [])
      | Returns response \<Rightarrow>
          (case delete_entries s3 bucket_name ''version''
                  (case Versions response of None \<Rightarrow> [] | Some vs \<Rightarrow> vs) [] of
             (Raises e, printed) \<Rightarrow> (Raises e, printed)
           | (Returns u, printed) \<Rightarrow>
               (case delete_entries s3 bucket_name ''marker''
                       (case DeleteMarkers response of None \<Rightarrow> [] | Some ms \<Rightarrow> ms) printed of
                  (Raises e, printed1) \<Rightarrow> (Raises e, printed1)
                | (Returns u1, printed1) \<Rightarrow>
                    (case delete_bucket s3 bucket_name of
                       Raises e \<Rightarrow> (Raises e, printed1)
                     | Returns u2 \<Rightarrow>
                         (Returns (), printed1 @ [''Deleted bucket: '' @ bucket_name])))))"

text \<open>
  \<open>except ClientError\<close>: the code \<open>NoSuchBucket\<close> prints "already deleted", any other code
  prints the error.  Another exception leaves the function.
\<close>

definition delete_all_object_versions ::
  "s3_cleanup \<Rightarrow> string \<Rightarrow> unit outcome \<times> string list" where
  "delete_all_object_versions s3 bucket_name =
     (case delete_all_object_versions_try s3 bucket_name of
        (Returns u, printed) \<Rightarrow> (Returns (), printed)
      | (Raises e, printed) \<Rightarrow>
          (case e of
             ClientError code msg \<Rightarrow>
               (if code = ''NoSuchBucket''
                then (Returns (), printed @ [''Bucket '' @ bucket_name @ '' already deleted''])
                else (Returns (), printed @ [''Error deleting '' @ bucket_name @ '': '' @ exc_str e]))
           | _ \<Rightarrow> (Raises e, printed)))"

subsection \<open>\<open>setup-s3-replication.py\<close>: \<open>create_replication_role\<close>\<close>

text \<open>\<open>create_role\<close> and \<open>get_role\<close> return the ARN of the role (\<open>response['Role']['Arn']\<close>).\<close>

record iam_service =
  create_role :: "string \<Rightarrow> string outcome"
  attach_role_policy :: "string \<Rightarrow> string \<Rightarrow> unit outcome"
  get_role :: "string \<Rightarrow> string outcome"

definition role_name :: string where
  "role_name = ''S3-Replication-Role''"

definition replication_policy_arn :: string where
  "replication_policy_arn =
     ''arn:aws:iam::aws:policy/service-role/AWSS3ReplicationServiceRolePolicy''"

definition create_replication_role_try :: "iam_service \<Rightarrow> string outcome" where
  "create_replication_role_try iam =
     (case create_role iam role_name of
        Raises e \<Rightarrow> Raises e
      | Returns role_arn \<Rightarrow>
          (case attach_role_policy iam role_name replication_policy_arn of
             Raises e \<Rightarrow> Raises e
           | Returns u \<Rightarrow> Returns role_arn))"

text \<open>
  The result is \<open>Some\<close> ARN or Python's \<open>None\<close>.  The handler of \<open>EntityAlreadyExists\<close> calls
  \<open>get_role\<close>, and an exception of that call leaves the method, as does an exception of the
  \<open>try\<close> block that is not a client error.
\<close>

definition create_replication_role :: "iam_service \<Rightarrow> string option outcome" where
  "create_replication_role iam =
     (case create_replication_role_try iam of
        Returns role_arn \<Rightarrow> Returns (Some role_arn)
      | Raises e \<Rightarrow>
          (case e of
             ClientError code msg \<Rightarrow>
               (if code = ''EntityAlreadyExists''
                then (case get_role iam role_name of
                        Raises e2 \<Rightarrow> Raises e2
                      | Returns role_arn \<Rightarrow> Returns (Some role_arn))
                else Returns None)
           | _ \<Rightarrow> Raises e))"

section \<open>\<open>dynamodb-stream-sync.py\<close>: \<open>_convert_floats_to_decimal\<close>\<close>

text \<open>
  The Python values the function can meet, as finite trees.  A float is its 64 bits; a
  \<open>Decimal\<close> is the text it was made from.  A dictionary is the list of its items in
  insertion order; its keys are values themselves.  Tuples and sets stand for the
  containers that are neither \<open>dict\<close> nor \<open>list\<close>.  The interpreter's recursion limit is
  not modelled.
\<close>

datatype pyval =
    PFloat "64 word"
  | PDecimal string
  | PInt int
  | PStr string
  | PBool bool
  | PNone
  | PList "pyval list"
  | PDict "(pyval \<times> pyval) list"
  | PTuple "pyval list"
  | PSet "pyval list"

text \<open>
  \<open>float_str\<close> is \<open>str\<close> on floats; the branches are tested in the order of the source:
  \<open>dict\<close>, \<open>list\<close>, \<open>float\<close>, and everything else is returned as it is.
\<close>

fun convert_floats_to_decimal :: "(64 word \<Rightarrow> string) \<Rightarrow> pyval \<Rightarrow> pyval" where
  "convert_floats_to_decimal float_str (PDict items) =
     PDict (map (\<lambda>kv. (fst kv, convert_floats_to_decimal float_str (snd kv))) items)"
| "convert_floats_to_decimal float_str (PList vs) =
     PList (map (convert_floats_to_decimal float_str) vs)"
| "convert_floats_to_decimal float_str (PFloat x) = PDecimal (float_str x)"
| "convert_floats_to_decimal float_str item = item"

text \<open>A float anywhere in a value: as the value, as a key, or inside any container.\<close>

fun contains_float :: "pyval \<Rightarrow> bool" where
  "contains_float (PFloat x) = True"
| "contains_float (PList vs) = list_ex contains_float vs"
| "contains_float (PTuple vs) = list_ex contains_float vs"
| "contains_float (PSet vs) = list_ex contains_float vs"
| "contains_float (PDict items) =
     list_ex (\<lambda>kv. contains_float (fst kv) \<or> contains_float (snd kv)) items"
| "contains_float v = False"

text \<open>
  A float that is the value itself or is reached from it through list elements and
  dictionary values only.
\<close>

fun float_reachable :: "pyval \<Rightarrow> bool" where
  "float_reachable (PFloat x) = True"
| "float_reachable (PList vs) = list_ex float_reachable vs"
| "float_reachable (PDict items) = list_ex (\<lambda>kv. float_reachable (snd kv)) items"
| "float_reachable v = False"

definition one_and_a_half :: "64 word" where
  "one_and_a_half = 0x3FF8000000000000"

definition demo_float_str :: "64 word \<Rightarrow> string" where
  "demo_float_str x = (if x = one_and_a_half then ''1.5'' else ''0.0'')"

section \<open>\<open>complete-migration-validation.py\<close>: the class \<open>MigrationValidator\<close>\<close>

text \<open>
  The provider as the validator sees it: making the client or resource of a region, the
  paginated listing of a bucket through the client of a region, and the scan of a table
  through the resource of a region (the items of its response).
\<close>

record provider =
  s3_client :: "string \<Rightarrow> unit outcome"
  list_pages :: "string \<Rightarrow> string \<Rightarrow> pagination"
  dynamodb_resource :: "string \<Rightarrow> unit outcome"
  scan_items :: "string \<Rightarrow> string \<Rightarrow> pyval list outcome"

text \<open>
  A Python dictionary with string keys, as the list of its items in insertion order.
  \<open>d[k] = v\<close> replaces the value of a key that is there and appends a new key.
\<close>

fun dict_set :: "string \<Rightarrow> 'v \<Rightarrow> (string \<times> 'v) list \<Rightarrow> (string \<times> 'v) list" where
  "dict_set k v [] = [(k, v)]"
| "dict_set k v ((k', v') # d) =
     (if k' = k then (k, v) # d else (k', v') # dict_set k v d)"


fun dict_get :: "(string \<times> 'v) list \<Rightarrow> string \<Rightarrow> 'v option" where
  "dict_get [] k = None"
| "dict_get ((k', v') # d) k = (if k' = k then Some v' else dict_get d k)"



text \<open>The entries of \<open>self.results\<close> that the two validations write.\<close>

record bucket_report =
  report_count :: nat
  report_missing :: nat
  report_status :: string

record table_report =
  table_count :: nat
  table_status :: string

record results =
  bulk_source_count :: "nat option"
  bulk_targets :: "(string \<times> bucket_report) list"
  bulk_status :: "string option"
  sync_source_count :: "nat option"
  sync_targets :: "(string \<times> table_report) list"
  sync_status :: "string option"

definition MigrationValidator_init :: results where
  "MigrationValidator_init =
     \<lparr>bulk_source_count = None, bulk_targets = [], bulk_status = None,
      sync_source_count = None, sync_targets = [], sync_status = None\<rparr>"

text \<open>
  Reading an attribute that \<open>load_configuration\<close> has not set raises \<open>AttributeError\<close>.
\<close>

definition get_attr :: "string \<Rightarrow> 'a option \<Rightarrow> 'a outcome" where
  "get_attr name v =
     (case v of None \<Rightarrow> Raises (AttributeError name) | Some x \<Rightarrow> Returns x)"

subsection \<open>\<open>validate_s3_bulk_migration\<close>\<close>






subsection \<open>\<open>validate_dynamodb_sync\<close>\<close>

text \<open>
  The check of one target inside its own \<open>try\<close>: the report it writes, or the exception
  that the inner handler catches.
\<close>

definition check_table :: "provider \<Rightarrow> nat \<Rightarrow> table_target \<Rightarrow> table_report outcome" where
  "check_table p source_count target =
     (case dynamodb_resource p (table_region target) of
        Raises e \<Rightarrow> Raises e
      | Returns u \<Rightarrow>
          (case scan_items p (table_region target) (table target) of
             Raises e \<Rightarrow> Raises e
           | Returns target_items \<Rightarrow>
               Returns \<lparr>table_count = length target_items,
                        table_status = (if length target_items = source_count
                                        then ''SYNCED'' else ''OUT_OF_SYNC'')\<rparr>))"

fun check_tables ::
  "provider \<Rightarrow> nat \<Rightarrow> table_target list \<Rightarrow> bool \<Rightarrow> results \<Rightarrow> bool \<times> results" where
  "check_tables p source_count [] all_targets_synced res = (all_targets_synced, res)"
| "check_tables p source_count (target # rest) all_targets_synced res =
     (case check_table p source_count target of
        Raises e \<Rightarrow> check_tables p source_count rest False res
      | Returns report \<Rightarrow>
          check_tables p source_count rest
            (if table_status report = ''SYNCED'' then all_targets_synced else False)
            (res\<lparr>sync_targets := dict_set (table target) report (sync_targets res)\<rparr>))"

definition sync_error :: "results \<Rightarrow> bool \<times> results" where
  "sync_error res = (False, res\<lparr>sync_status := Some ''ERROR''\<rparr>)"

text \<open>The scan of the source table, with the attribute reads and calls before it.\<close>

definition scan_source :: "provider \<Rightarrow> validator \<Rightarrow> pyval list outcome" where
  "scan_source p v =
     (case get_attr ''source_region'' (v_source_region v) of
        Raises e \<Rightarrow> Raises e
      | Returns src_region \<Rightarrow>
     (case dynamodb_resource p src_region of
        Raises e \<Rightarrow> Raises e
      | Returns u \<Rightarrow>
     (case get_attr ''source_table'' (v_source_table v) of
        Raises e \<Rightarrow> Raises e
      | Returns src_table \<Rightarrow> scan_items p src_region src_table)))"

definition validate_dynamodb_sync :: "provider \<Rightarrow> validator \<Rightarrow> results \<Rightarrow> bool \<times> results" where
  "validate_dynamodb_sync p v res =
     (case scan_source p v of
        Raises e \<Rightarrow> sync_error res
      | Returns source_items \<Rightarrow>
          (let source_count = length source_items;
               res1 = res\<lparr>sync_source_count := Some source_count, sync_targets := []\<rparr>
           in case check_tables p source_count (dynamodb_targets v) True res1 of
                (all_targets_synced, res2) \<Rightarrow>
                  (all_targets_synced,
                   res2\<lparr>sync_status :=
                          Some (if all_targets_synced then ''SYNCED'' else ''OUT_OF_SYNC'')\<rparr>)))"

text \<open>Files and values for the concrete instances below.\<close>

definition demo_files :: "string \<Rightarrow> files" where
  "demo_files bucket_info = (\<lambda>name. None)(''bucket-info.txt'' := Some bucket_info,
      ''dynamodb-info.txt'' := Some (table_info_text ''migration-demo-user-data'' ''us-east-1''))"

definition bucket_info_with_equals :: string where
  "bucket_info_with_equals = ''SOURCE_BUCKET=a=b'' @ [LF] @ ''SOURCE_REGION=us-east-1'' @ [LF]"

definition bucket_info_plain :: string where
  "bucket_info_plain = ''SOURCE_BUCKET=demo-source-1'' @ [LF] @ ''SOURCE_REGION=us-east-1'' @ [LF]"

definition table_name_with_cr :: string where
  "table_name_with_cr = ''a'' @ [CR] @ ''b''"

definition no_files :: files where
  "no_files = (\<lambda>name. None)"

definition db_table_in_use :: dynamodb_admin where
  "db_table_in_use =
     \<lparr>dynamodb_client = (\<lambda>r. Returns ()),
      create_table = (\<lambda>r t. Raises (ClientError ''ResourceInUseException'' ''Table already exists'')),
      wait_table_exists = (\<lambda>r t. Returns ())\<rparr>"

definition s3_no_bucket :: s3_cleanup where
  "s3_no_bucket =
     \<lparr>list_object_versions = (\<lambda>b. Raises (ClientError ''NoSuchBucket'' ''The specified bucket does not exist'')),
      delete_object = (\<lambda>b k v. Returns ()),
      delete_bucket = (\<lambda>b. Returns ())\<rparr>"

definition iam_role_exists :: iam_service where
  "iam_role_exists =
     \<lparr>create_role = (\<lambda>n. Raises (ClientError ''EntityAlreadyExists'' ''Role exists'')),
      attach_role_policy = (\<lambda>n p. Returns ()),
      get_role = (\<lambda>n. Returns ''arn:aws:iam::123456789012:role/S3-Replication-Role'')\<rparr>"

definition iam_lookup_denied :: iam_service where
  "iam_lookup_denied =
     \<lparr>create_role = (\<lambda>n. Raises (ClientError ''EntityAlreadyExists'' ''Role exists'')),
      attach_role_policy = (\<lambda>n p. Returns ()),
      get_role = (\<lambda>n. Raises (ClientError ''AccessDenied'' ''Access Denied''))\<rparr>"


definition table_check_returns :: "provider \<Rightarrow> table_target \<Rightarrow> bool" where
  "table_check_returns p t =
     (case dynamodb_resource p (table_region t) of
        Raises e \<Rightarrow> False
      | Returns u \<Rightarrow>
          (case scan_items p (table_region t) (table t) of
             Raises e \<Rightarrow> False
           | Returns items \<Rightarrow> True))"

definition table_synced :: "provider \<Rightarrow> nat \<Rightarrow> table_target \<Rightarrow> bool" where
  "table_synced p n t =
     (case check_table p n t of
        Raises e \<Rightarrow> False
      | Returns report \<Rightarrow> table_status report = ''SYNCED'')"

text \<open>
  A validator and a provider for the concrete instances: the second target bucket is
  empty, and the scan of the second target table raises.
\<close>

definition demo_validator :: validator where
  "demo_validator =
     \<lparr>v_source_bucket = ''demo-source'', v_source_region = Some ''us-east-1'',
      v_source_table = Some ''migration-demo-user-data'',
      s3_targets = demo_targets, dynamodb_targets = validator_dynamodb_target_configs\<rparr>"

definition demo_provider :: provider where
  "demo_provider =
     \<lparr>s3_client = (\<lambda>r. Returns ()),
      list_pages = (\<lambda>r b. if b = ''demo-target-eu-west-1'' then ([None], None)
                           else ([Some [demo_object]], None)),
      dynamodb_resource = (\<lambda>r. Returns ()),
      scan_items = (\<lambda>r t. if t = ''migration-demo-target-eu-west-1-user-data''
                           then Raises (ClientError ''ResourceNotFoundException'' ''Requested resource not found'')
                           else Returns [PDict [(PStr ''user_id'', PStr ''u1'')]])\<rparr>"

section \<open>Theorems\<close>

lemma completed_iff: "completed r = (r = Returns True \<or> r = Returns False)"
  by (cases r) auto

subsection \<open>The statistics of the migrator\<close>

lemma copy_failed_cases:
  "copy_failed ob t e m = (r, m') \<Longrightarrow>
     (r = Returns False \<and> requests m' = requests m \<and>
        stats m' = (stats m)\<lparr>failed_copies := failed_copies (stats m) + 1,
                     errors := errors (stats m) @ [''Failed to copy '' @ key ob @ '' to '' @ bucket t @ '': '' @ exc_str e]\<rparr>
        \<and> is_client_error e)
   \<or> (r = Raises e \<and> m' = m \<and> \<not> is_client_error e)"
  by (auto simp: copy_failed_def Let_def split: if_splits)

lemma copy_object_to_target_stats:
  assumes "copy_object_to_target svc ob t m = (r, m')"
  shows "(r = Returns True \<and>
            stats m' = (stats m)\<lparr>successful_copies := successful_copies (stats m) + 1,
                          bytes_transferred := bytes_transferred (stats m) + size_bytes ob\<rparr>)
       \<or> (r = Returns False \<and> (\<exists>msg.
            stats m' = (stats m)\<lparr>failed_copies := failed_copies (stats m) + 1,
                          errors := errors (stats m) @ [msg]\<rparr>))
       \<or> ((\<exists>e. r = Raises e) \<and> stats m' = stats m)"
  using assms
  by (auto simp: copy_object_to_target_def send_def split: outcome.splits prod.splits dest!: copy_failed_cases)

lemma copy_calls_length: "length (fst (copy_calls svc cs m)) = length cs"
  by (induction cs arbitrary: m) (auto split: prod.splits, metis fst_conv)

lemma copy_calls_stats:
  "copy_calls svc cs m = (rs, m') \<Longrightarrow>
     successful_copies (stats m') = successful_copies (stats m) + length (filter (\<lambda>r. r = Returns True) rs)
   \<and> failed_copies (stats m') = failed_copies (stats m) + length (filter (\<lambda>r. r = Returns False) rs)
   \<and> bytes_transferred (stats m') = bytes_transferred (stats m) + bytes_of_succeeded cs rs
   \<and> length (errors (stats m')) = length (errors (stats m)) + length (filter (\<lambda>r. r = Returns False) rs)"
proof (induction cs arbitrary: m rs m')
  case Nil
  then show ?case by (simp add: bytes_of_succeeded_def)
next
  case (Cons c cs)
  obtain ob t where c: "c = (ob, t)" by (cases c)
  obtain r m1 where step: "copy_object_to_target svc ob t m = (r, m1)" by (cases "copy_object_to_target svc ob t m")
  obtain rs1 m2 where rest: "copy_calls svc cs m1 = (rs1, m2)" by (cases "copy_calls svc cs m1")
  from Cons.prems c step rest have rs: "rs = r # rs1" and m': "m' = m2" by auto
  note ih = Cons.IH[OF rest]
  from copy_object_to_target_stats[OF step] show ?case
    using ih unfolding rs m' c
    by (auto simp: bytes_of_succeeded_def)
qed

lemma filter_completed:
  "length (filter completed rs) =
     length (filter (\<lambda>r. r = Returns True) rs) + length (filter (\<lambda>r. r = Returns False) rs)"
  by (induction rs) (auto simp: completed_iff)

text \<open>
  Claim C9.  Start from a new migrator and let any sequence of calls of
  \<open>copy_object_to_target\<close> take effect, whatever the provider answers.  Then
  \<open>successful_copies + failed_copies\<close> is the number of calls that returned,
  \<open>bytes_transferred\<close> is the sum of the sizes of the objects whose copy returned \<open>True\<close>,
  and \<open>errors\<close> has \<open>failed_copies\<close> entries.
\<close>

theorem stats_invariant:
  "(let (rs, m) = copy_calls svc cs (S3BulkMigrator_init sb sr tcs) in
      successful_copies (stats m) + failed_copies (stats m) = length (filter completed rs)
    \<and> bytes_transferred (stats m) = bytes_of_succeeded cs rs
    \<and> length (errors (stats m)) = failed_copies (stats m))"
proof -
  obtain rs m where run: "copy_calls svc cs (S3BulkMigrator_init sb sr tcs) = (rs, m)"
    by (cases "copy_calls svc cs (S3BulkMigrator_init sb sr tcs)")
  have init: "stats (S3BulkMigrator_init sb sr tcs) =
      \<lparr>total_objects = 0, successful_copies = 0, failed_copies = 0,
       bytes_transferred = 0, errors = []\<rparr>"
    by (simp add: S3BulkMigrator_init_def)
  from copy_calls_stats[OF run] show ?thesis
    by (simp add: run init filter_completed)
qed

subsection \<open>One attempt per target\<close>

lemma attempts_length: "length (attempts svc h sb k ts) = length ts"
  by (induction ts arbitrary: h) (auto simp: Let_def)

lemma copy_failed_client:
  "is_client_error e \<Longrightarrow> \<exists>m'. copy_failed ob t e m = (Returns False, m') \<and> requests m' = requests m
     \<and> source_bucket m' = source_bucket m \<and> target_configs m' = target_configs m"
  by (simp add: copy_failed_def Let_def)

lemma copy_object_to_target_attempt:
  assumes "only_client_errors svc"
  shows "\<exists>m'. copy_object_to_target svc ob t m =
            (Returns (attempt_ok (attempt_of svc (requests m) (source_bucket m) (key ob) t)), m')
          \<and> requests m' = requests m @ attempt_requests (source_bucket m) (key ob) t
                              (attempt_of svc (requests m) (source_bucket m) (key ob) t)
          \<and> source_bucket m' = source_bucket m \<and> target_configs m' = target_configs m"
proof (cases "make_client svc (region t)")
  case (Raises e)
  with assms have "is_client_error e" by (auto simp: only_client_errors_def)
  from copy_failed_client[OF this, of ob t m] Raises show ?thesis
    by (auto simp: copy_object_to_target_def attempt_of_def attempt_requests_def)
next
  case mk: (Returns u)
  show ?thesis
  proof (cases "respond svc (requests m) (HeadObject (source_bucket m) (key ob))")
    case (Raises e)
    with assms have "is_client_error e" by (auto simp: only_client_errors_def)
    from copy_failed_client[OF this, of ob t "m\<lparr>requests := requests m @ [HeadObject (source_bucket m) (key ob)]\<rparr>"] Raises mk
    show ?thesis
      by (auto simp: copy_object_to_target_def attempt_of_def attempt_requests_def send_def)
  next
    case hd: (Returns u1)
    show ?thesis
    proof (cases "respond svc (requests m @ [HeadObject (source_bucket m) (key ob)])
                    (CopyObject (region t) (source_bucket m) (key ob) (bucket t))")
      case (Raises e)
      with assms have "is_client_error e" by (auto simp: only_client_errors_def)
      from copy_failed_client[OF this, of ob t
             "m\<lparr>requests := requests m @ [HeadObject (source_bucket m) (key ob)] @
                   [CopyObject (region t) (source_bucket m) (key ob) (bucket t)]\<rparr>"] Raises mk hd
      show ?thesis
        by (auto simp: copy_object_to_target_def attempt_of_def attempt_requests_def send_def)
    next
      case (Returns u2)
      with mk hd show ?thesis
        by (auto simp: copy_object_to_target_def attempt_of_def attempt_requests_def send_def)
    qed
  qed
qed

lemma migrate_loop_attempts:
  assumes "only_client_errors svc"
  shows "\<exists>m'. migrate_loop svc ob ts results m =
            (Returns (results @ map attempt_ok (attempts svc (requests m) (source_bucket m) (key ob) ts)), m')
          \<and> requests m' = requests m @ concat (map2 (attempt_requests (source_bucket m) (key ob)) ts
                               (attempts svc (requests m) (source_bucket m) (key ob) ts))
          \<and> source_bucket m' = source_bucket m \<and> target_configs m' = target_configs m"
proof (induction ts arbitrary: results m)
  case Nil
  then show ?case by simp
next
  case (Cons t ts)
  from copy_object_to_target_attempt[OF assms, of ob t m]
  obtain m1 where step: "copy_object_to_target svc ob t m =
            (Returns (attempt_ok (attempt_of svc (requests m) (source_bucket m) (key ob) t)), m1)"
     and rq: "requests m1 = requests m @ attempt_requests (source_bucket m) (key ob) t
                              (attempt_of svc (requests m) (source_bucket m) (key ob) t)"
     and sb: "source_bucket m1 = source_bucket m" and tc: "target_configs m1 = target_configs m"
    by blast
  from Cons.IH[of "results @ [attempt_ok (attempt_of svc (requests m) (source_bucket m) (key ob) t)]" m1]
  show ?case
    by (auto simp: step rq sb tc Let_def)
qed

text \<open>
  Claim C2, amended.  When the provider raises nothing but client errors,
  \<open>migrate_object_to_all_targets\<close> makes exactly one attempt per target configuration, in
  the order of the list, going on after a failed attempt and repeating none (the requests
  it adds are those of \<open>attempts\<close>, target by target), and it returns \<open>True\<close> exactly when
  every attempt succeeded.
\<close>

theorem migrate_attempts:
  assumes "only_client_errors svc"
  shows "(let sb = source_bucket m; k = key ob; ts = target_configs m;
              as = attempts svc (requests m) sb k ts;
              (r, m') = migrate_object_to_all_targets svc ob m
          in length as = length ts
           \<and> requests m' = requests m @ concat (map2 (attempt_requests sb k) ts as)
           \<and> r = Returns (list_all attempt_ok as))"
proof -
  from migrate_loop_attempts[OF assms, of ob "target_configs m" "[]" m]
  obtain m' where loop: "migrate_loop svc ob (target_configs m) [] m =
            (Returns (map attempt_ok (attempts svc (requests m) (source_bucket m) (key ob) (target_configs m))), m')"
     and rq: "requests m' = requests m @ concat (map2 (attempt_requests (source_bucket m) (key ob)) (target_configs m)
                               (attempts svc (requests m) (source_bucket m) (key ob) (target_configs m)))"
    by auto
  show ?thesis
    by (simp add: Let_def migrate_object_to_all_targets_def loop rq attempts_length list_all_iff)
qed

lemma only_client_errors_denied: "only_client_errors (svc_listing pg answer_denied_west)"
  by (auto simp: only_client_errors_def svc_listing_def answer_denied_west_def split: if_splits)

theorem migrate_attempts_witness:
  "only_client_errors (svc_listing ([], None) answer_denied_west)
   \<and> fst (migrate_object_to_all_targets (svc_listing ([], None) answer_denied_west) demo_object demo_migrator)
       = Returns False
   \<and> requests (snd (migrate_object_to_all_targets (svc_listing ([], None) answer_denied_west) demo_object demo_migrator))
       = [HeadObject ''demo-source'' ''a.txt'',
          CopyObject ''us-west-2'' ''demo-source'' ''a.txt'' ''demo-target-us-west-2'',
          HeadObject ''demo-source'' ''a.txt'',
          CopyObject ''eu-west-1'' ''demo-source'' ''a.txt'' ''demo-target-eu-west-1'']"
proof -
  let ?svc = "svc_listing ([], None) answer_denied_west"
  have h: "only_client_errors ?svc"
    by (rule only_client_errors_denied)
  have m: "source_bucket demo_migrator = ''demo-source''" "requests demo_migrator = []"
    "target_configs demo_migrator = demo_targets" "key demo_object = ''a.txt''"
    by (simp_all add: demo_migrator_def S3BulkMigrator_init_def demo_object_def)
  have as: "attempts ?svc [] ''demo-source'' ''a.txt'' demo_targets = [HeadAndCopy False, HeadAndCopy True]"
    by (simp add: demo_targets_def attempt_of_def attempt_requests_def svc_listing_def
          answer_denied_west_def)
  have "(let (r, m') = migrate_object_to_all_targets ?svc demo_object demo_migrator
         in requests m' = concat (map2 (attempt_requests ''demo-source'' ''a.txt'') demo_targets
                                    [HeadAndCopy False, HeadAndCopy True])
          \<and> r = Returns False)"
    using migrate_attempts[OF h, where m = demo_migrator and ob = demo_object]
    by (simp add: Let_def m as split: prod.splits)
  then show ?thesis using h
    by (simp add: demo_targets_def attempt_requests_def split: prod.splits)
qed

text \<open>
  The claim as stated fails when an attempt raises an exception that is not a client
  error: \<open>copy_object_to_target\<close> does not catch it, the loop ends, and the second of the
  two targets is never attempted.
\<close>

theorem migrate_stops_at_other_exception:
  "fst (migrate_object_to_all_targets (svc_listing ([], None) answer_unreachable_west) demo_object demo_migrator)
       = Raises (OtherException ''EndpointConnectionError'')
   \<and> requests (snd (migrate_object_to_all_targets (svc_listing ([], None) answer_unreachable_west) demo_object demo_migrator))
       = [HeadObject ''demo-source'' ''a.txt'',
          CopyObject ''us-west-2'' ''demo-source'' ''a.txt'' ''demo-target-us-west-2'']
   \<and> length (target_configs demo_migrator) = 2"
  by (simp add: migrate_object_to_all_targets_def copy_object_to_target_def send_def copy_failed_def
        demo_migrator_def S3BulkMigrator_init_def demo_targets_def
        demo_object_def svc_listing_def answer_unreachable_west_def)

subsection \<open>The result of \<open>run_migration\<close>\<close>

lemma run_migration_no_objects:
  assumes "(\<exists>pages. paginate svc (source_bucket m) = (pages, None) \<and> page_objects pages = [])
         \<or> (\<exists>pages e. paginate svc (source_bucket m) = (pages, Some e) \<and> is_client_error e)"
  shows "fst (run_migration svc m) = Returns False
       \<and> requests (snd (run_migration svc m)) = requests m @ [ListObjectsV2 (source_bucket m)]
       \<and> successful_copies (stats (snd (run_migration svc m))) = successful_copies (stats m)
       \<and> failed_copies (stats (snd (run_migration svc m))) = failed_copies (stats m)"
  using assms
  by (auto simp: run_migration_def list_all_objects_def Let_def)

lemma run_pool_fold:
  "run_pool svc objects m = fold (\<lambda>obj_info m. snd (migrate_object_to_all_targets svc obj_info m)) objects m"
  by (induction objects arbitrary: m) auto

lemma copy_calls_append:
  "copy_calls svc (xs @ ys) m =
     (case copy_calls svc xs m of (rs1, m1) \<Rightarrow>
        (case copy_calls svc ys m1 of (rs2, m2) \<Rightarrow> (rs1 @ rs2, m2)))"
  by (induction xs arbitrary: m) (auto split: prod.splits)

lemma all_copy_attempts_length:
  "length (all_copy_attempts objects targets) = length objects * length targets"
  by (induction objects) (auto simp: all_copy_attempts_def)

lemma all_copy_attempts_Cons:
  "all_copy_attempts (ob # objects) targets
     = map (\<lambda>t. (ob, t)) targets @ all_copy_attempts objects targets"
  by (simp add: all_copy_attempts_def)

lemma migrate_loop_copy_calls:
  assumes "only_client_errors svc"
  shows "copy_calls svc (map (\<lambda>t. (ob, t)) ts) m = (rs, m') \<Longrightarrow>
           migrate_loop svc ob ts results m = (Returns (results @ map (\<lambda>r. r = Returns True) rs), m')
         \<and> list_all completed rs
         \<and> source_bucket m' = source_bucket m \<and> target_configs m' = target_configs m"
proof (induction ts arbitrary: results m rs m')
  case Nil
  then show ?case by simp
next
  case (Cons t ts)
  from copy_object_to_target_attempt[OF assms, of ob t m]
  obtain b m1 where step: "copy_object_to_target svc ob t m = (Returns b, m1)"
     and sb: "source_bucket m1 = source_bucket m" and tc: "target_configs m1 = target_configs m"
    by blast
  obtain rs1 m2 where rest: "copy_calls svc (map (\<lambda>t. (ob, t)) ts) m1 = (rs1, m2)"
    by (cases "copy_calls svc (map (\<lambda>t. (ob, t)) ts) m1")
  from Cons.prems step rest have rs: "rs = Returns b # rs1" and m': "m' = m2"
    by auto
  from Cons.IH[OF rest, of "results @ [b]"] show ?case
    by (simp add: step rs m' sb tc)
qed

lemma run_pool_copy_calls:
  assumes "only_client_errors svc"
  shows "copy_calls svc (all_copy_attempts objects (target_configs m)) m = (rs, m') \<Longrightarrow>
           run_pool svc objects m = m' \<and> list_all completed rs"
proof (induction objects arbitrary: m rs m')
  case Nil
  then show ?case by (simp add: all_copy_attempts_def)
next
  case (Cons ob objects)
  obtain rs1 m1 where one: "copy_calls svc (map (\<lambda>t. (ob, t)) (target_configs m)) m = (rs1, m1)"
    by (cases "copy_calls svc (map (\<lambda>t. (ob, t)) (target_configs m)) m")
  from migrate_loop_copy_calls[OF assms one, of "[]"]
  have loop: "migrate_loop svc ob (target_configs m) [] m = (Returns (map (\<lambda>r. r = Returns True) rs1), m1)"
    and c1: "list_all completed rs1" and tc: "target_configs m1 = target_configs m"
    by auto
  have task: "snd (migrate_object_to_all_targets svc ob m) = m1"
    by (simp add: migrate_object_to_all_targets_def loop)
  obtain rs2 m2 where rest: "copy_calls svc (all_copy_attempts objects (target_configs m1)) m1 = (rs2, m2)"
    by (cases "copy_calls svc (all_copy_attempts objects (target_configs m1)) m1")
  from Cons.prems one rest have rs: "rs = rs1 @ rs2" and m': "m' = m2"
    by (auto simp: all_copy_attempts_Cons copy_calls_append tc)
  from Cons.IH[OF rest] show ?case
    by (simp add: task rs m' c1)
qed

lemma all_completed_failed:
  "list_all completed rs \<Longrightarrow>
     (length (filter (\<lambda>r. r = Returns False) rs) = 0) = list_all (\<lambda>r. r = Returns True) rs"
  by (induction rs) (auto simp: completed_iff)

lemma run_migration_listed:
  assumes "paginate svc (source_bucket m) = (pages, None)" "page_objects pages \<noteq> []"
  shows "run_migration svc m =
           (Returns (failed_copies (stats (run_pool svc (page_objects pages) (after_listing m (page_objects pages)))) = 0),
            run_pool svc (page_objects pages) (after_listing m (page_objects pages)))"
  using assms
  by (simp add: run_migration_def list_all_objects_def Let_def after_listing_def)

lemma run_migration_true:
  "fst (run_migration svc m) = Returns True \<longleftrightarrow>
     (\<exists>pages. paginate svc (source_bucket m) = (pages, None) \<and> page_objects pages \<noteq> []
        \<and> failed_copies (stats (fold (\<lambda>obj_info m. snd (migrate_object_to_all_targets svc obj_info m))
                                  (page_objects pages) (after_listing m (page_objects pages)))) = 0)"
proof (cases "paginate svc (source_bucket m)")
  case (Pair pages err)
  show ?thesis
  proof (cases err)
    case None
    show ?thesis
    proof (cases "page_objects pages = []")
      case True
      with Pair None show ?thesis
        by (simp add: run_migration_def list_all_objects_def Let_def)
    next
      case False
      from run_migration_listed[OF Pair[unfolded None] False] Pair None False show ?thesis
        by (simp add: run_pool_fold)
    qed
  next
    case (Some e)
    with Pair show ?thesis
      by (simp add: run_migration_def list_all_objects_def Let_def)
  qed
qed

lemma run_migration_attempts:
  assumes pg: "paginate svc (source_bucket m) = (pages, None)" and ne: "page_objects pages \<noteq> []"
      and oce: "only_client_errors svc"
  shows "(let objects = page_objects pages;
              (rs, m') = copy_calls svc (all_copy_attempts objects (target_configs m)) (after_listing m objects)
          in snd (run_migration svc m) = m'
           \<and> length rs = length objects * length (target_configs m)
           \<and> list_all completed rs
           \<and> fst (run_migration svc m)
               = Returns (failed_copies (stats m) = 0 \<and> list_all (\<lambda>r. r = Returns True) rs))"
proof -
  let ?objects = "page_objects pages"
  let ?m1 = "after_listing m ?objects"
  have tc: "target_configs ?m1 = target_configs m" by (simp add: after_listing_def)
  have fc: "failed_copies (stats ?m1) = failed_copies (stats m)" by (simp add: after_listing_def)
  obtain rs m' where calls: "copy_calls svc (all_copy_attempts ?objects (target_configs m)) ?m1 = (rs, m')"
    by (cases "copy_calls svc (all_copy_attempts ?objects (target_configs m)) ?m1")
  from run_pool_copy_calls[OF oce, of ?objects ?m1 rs m'] calls tc
  have pool: "run_pool svc ?objects ?m1 = m'" and comp: "list_all completed rs"
    by auto
  from copy_calls_length[of svc "all_copy_attempts ?objects (target_configs m)" ?m1] calls
  have len: "length rs = length ?objects * length (target_configs m)"
    by (simp add: all_copy_attempts_length)
  from copy_calls_stats[OF calls]
  have "failed_copies (stats m') = failed_copies (stats m) + length (filter (\<lambda>r. r = Returns False) rs)"
    by (simp add: fc)
  then have zero: "(failed_copies (stats m') = 0)
      = (failed_copies (stats m) = 0 \<and> list_all (\<lambda>r. r = Returns True) rs)"
    using all_completed_failed[OF comp] by simp
  show ?thesis
    using run_migration_listed[OF pg ne]
    by (simp add: Let_def calls pool len comp zero)
qed

lemma only_client_errors_ok: "only_client_errors (svc_listing pg answer_ok)"
  by (simp add: only_client_errors_def svc_listing_def answer_ok_def)

lemma demo_after_listing:
  "after_listing demo_migrator [demo_object] =
     \<lparr>source_bucket = ''demo-source'', source_region = ''us-east-1'', target_configs = demo_targets,
      stats = \<lparr>total_objects = 1, successful_copies = 0, failed_copies = 0,
               bytes_transferred = 0, errors = []\<rparr>,
      requests = [ListObjectsV2 ''demo-source'']\<rparr>"
  by (simp add: after_listing_def demo_migrator_def S3BulkMigrator_init_def)

lemma demo_copy_calls_denied:
  "fst (copy_calls (svc_listing ([Some [demo_object]], None) answer_denied_west)
          (all_copy_attempts [demo_object] demo_targets) (after_listing demo_migrator [demo_object]))
     = [Returns False, Returns True]"
  by (simp add: demo_after_listing all_copy_attempts_def demo_targets_def copy_object_to_target_def
        send_def copy_failed_def svc_listing_def answer_denied_west_def demo_object_def)

lemma demo_copy_calls_ok:
  "fst (copy_calls (svc_listing ([Some [demo_object]], None) answer_ok)
          (all_copy_attempts [demo_object] demo_targets) (after_listing demo_migrator [demo_object]))
     = [Returns True, Returns True]"
  by (simp add: demo_after_listing all_copy_attempts_def demo_targets_def copy_object_to_target_def
        send_def copy_failed_def svc_listing_def answer_ok_def demo_object_def)

text \<open>
  Claim C1.  \<open>run_migration\<close> returns \<open>True\<close> exactly when the listing of the source bucket
  gave at least one object and \<open>failed_copies\<close> is zero in the state that the tasks of the
  pool leave: \<open>migrate_object_to_all_targets\<close> run for every listed object, from the state
  after the listing; this state is the one the run ends in.  When the provider raises
  nothing but client errors, the tasks make the copy attempts of \<open>all_copy_attempts\<close>, one
  call of \<open>copy_object_to_target\<close> for every listed object and every target, each of which
  returns, and the run returns \<open>True\<close> exactly when \<open>failed_copies\<close> was zero before it and
  every attempt returned \<open>True\<close>.  When the listing is empty, or the listing raised a client
  error, the run returns \<open>False\<close>, the listing is the only request sent, and the copy
  counters are untouched.
\<close>

theorem run_migration_result:
  "(fst (run_migration svc m) = Returns True \<longleftrightarrow>
      (\<exists>pages. paginate svc (source_bucket m) = (pages, None) \<and> page_objects pages \<noteq> []
         \<and> failed_copies (stats (fold (\<lambda>obj_info m. snd (migrate_object_to_all_targets svc obj_info m))
                                   (page_objects pages) (after_listing m (page_objects pages)))) = 0))
   \<and> (\<forall>pages. paginate svc (source_bucket m) = (pages, None) \<and> page_objects pages \<noteq> []
        \<longrightarrow> snd (run_migration svc m)
              = fold (\<lambda>obj_info m. snd (migrate_object_to_all_targets svc obj_info m))
                  (page_objects pages) (after_listing m (page_objects pages)))
   \<and> (\<forall>pages. paginate svc (source_bucket m) = (pages, None) \<and> page_objects pages \<noteq> []
          \<and> only_client_errors svc
        \<longrightarrow> (let objects = page_objects pages;
                  (rs, m') = copy_calls svc (all_copy_attempts objects (target_configs m))
                               (after_listing m objects)
              in snd (run_migration svc m) = m'
               \<and> length rs = length objects * length (target_configs m)
               \<and> list_all completed rs
               \<and> fst (run_migration svc m)
                   = Returns (failed_copies (stats m) = 0 \<and> list_all (\<lambda>r. r = Returns True) rs)))
   \<and> ((\<exists>pages. paginate svc (source_bucket m) = (pages, None) \<and> page_objects pages = [])
        \<or> (\<exists>pages e. paginate svc (source_bucket m) = (pages, Some e) \<and> is_client_error e)
      \<longrightarrow> fst (run_migration svc m) = Returns False
        \<and> requests (snd (run_migration svc m)) = requests m @ [ListObjectsV2 (source_bucket m)]
        \<and> successful_copies (stats (snd (run_migration svc m))) = successful_copies (stats m)
        \<and> failed_copies (stats (snd (run_migration svc m))) = failed_copies (stats m))"
proof -
  have 2: "\<forall>pages. paginate svc (source_bucket m) = (pages, None) \<and> page_objects pages \<noteq> []
        \<longrightarrow> snd (run_migration svc m)
              = fold (\<lambda>obj_info m. snd (migrate_object_to_all_targets svc obj_info m))
                  (page_objects pages) (after_listing m (page_objects pages))"
    using run_migration_listed[of svc m] by (simp add: run_pool_fold)
  have 3: "\<forall>pages. paginate svc (source_bucket m) = (pages, None) \<and> page_objects pages \<noteq> []
          \<and> only_client_errors svc
        \<longrightarrow> (let objects = page_objects pages;
                  (rs, m') = copy_calls svc (all_copy_attempts objects (target_configs m))
                               (after_listing m objects)
              in snd (run_migration svc m) = m'
               \<and> length rs = length objects * length (target_configs m)
               \<and> list_all completed rs
               \<and> fst (run_migration svc m)
                   = Returns (failed_copies (stats m) = 0 \<and> list_all (\<lambda>r. r = Returns True) rs))"
    using run_migration_attempts[of svc m] by blast
  from run_migration_true[of svc m] 2 3 run_migration_no_objects[of svc m]
  show ?thesis by blast
qed

theorem run_migration_result_witness:
  "paginate (svc_listing ([Some [demo_object]], None) answer_denied_west) (source_bucket demo_migrator)
     = ([Some [demo_object]], None)
   \<and> page_objects [Some [demo_object]] \<noteq> []
   \<and> only_client_errors (svc_listing ([Some [demo_object]], None) answer_denied_west)
   \<and> fst (run_migration (svc_listing ([Some [demo_object]], None) answer_denied_west) demo_migrator)
       = Returns False
   \<and> only_client_errors (svc_listing ([Some [demo_object]], None) answer_ok)
   \<and> fst (run_migration (svc_listing ([Some [demo_object]], None) answer_ok) demo_migrator)
       = Returns True"
proof -
  let ?pg = "([Some [demo_object]], None) :: pagination"
  have pg: "paginate (svc_listing ?pg answer) (source_bucket demo_migrator) = ?pg" for answer
    by (simp add: svc_listing_def)
  have ne: "page_objects [Some [demo_object]] \<noteq> []" and po: "page_objects [Some [demo_object]] = [demo_object]"
    by (simp_all add: page_objects_def)
  have m: "target_configs demo_migrator = demo_targets" "failed_copies (stats demo_migrator) = 0"
    by (simp_all add: demo_migrator_def S3BulkMigrator_init_def)
  have a: "fst (run_migration (svc_listing ?pg answer_denied_west) demo_migrator) = Returns False"
    using run_migration_result[of "svc_listing ?pg answer_denied_west" demo_migrator,
            THEN conjunct2, THEN conjunct2, THEN conjunct1, rule_format, of "[Some [demo_object]]"]
      pg[of answer_denied_west] ne only_client_errors_denied[of ?pg] demo_copy_calls_denied
    by (simp add: po m Let_def split: prod.splits)
  have b: "fst (run_migration (svc_listing ?pg answer_ok) demo_migrator) = Returns True"
    using run_migration_result[of "svc_listing ?pg answer_ok" demo_migrator,
            THEN conjunct2, THEN conjunct2, THEN conjunct1, rule_format, of "[Some [demo_object]]"]
      pg[of answer_ok] ne only_client_errors_ok[of ?pg] demo_copy_calls_ok
    by (simp add: po m Let_def split: prod.splits)
  show ?thesis
    using a b pg[of answer_denied_west] ne only_client_errors_denied[of ?pg] only_client_errors_ok[of ?pg]
    by simp
qed

subsection \<open>Reading the configuration files\<close>

lemma str_split_nonempty: "str_split c s \<noteq> []"
  by (induction s) (auto split: list.splits)

lemma str_split_hd: "hd (str_split c s) = takeWhile (\<lambda>x. x \<noteq> c) s"
  by (induction s) (auto split: list.splits simp: str_split_nonempty)

lemma str_split_no_sep: "c \<notin> set s \<Longrightarrow> str_split c s = [s]"
  by (induction s) auto

lemma str_split_append: "c \<notin> set p \<Longrightarrow> str_split c (p @ c # r) = p # str_split c r"
  by (induction p) auto

lemma text_read_no_CR: "CR \<notin> set s \<Longrightarrow> text_read s = s"
  by (induction s rule: text_read.induct) auto

lemma startswith_append: "str_startswith (p @ v) p"
  by (simp add: str_startswith_def)

lemma startswith_decompose: "str_startswith l p \<Longrightarrow> l = p @ drop (length p) l"
  by (metis append_take_drop_id str_startswith_def)

lemma value_of_line:
  assumes "str_startswith l (k @ ''='')" "CHR ''='' \<notin> set k"
  shows "py_index (str_split CHR ''='' l) 1 = Returns (cut_value l)"
proof -
  obtain v where l: "l = k @ CHR ''='' # v"
    using startswith_decompose[OF assms(1)] by auto
  have dw: "dropWhile (\<lambda>c. c \<noteq> CHR ''='') (k @ CHR ''='' # v) = CHR ''='' # v"
    using assms(2) by (induction k) auto
  have "str_split CHR ''='' l = k # str_split CHR ''='' v"
    unfolding l using assms(2) by (rule str_split_append)
  moreover obtain w ws where ws: "str_split CHR ''='' v = w # ws"
    using str_split_nonempty[of "CHR ''=''" v] by (cases "str_split CHR ''='' v") auto
  moreover have "w = takeWhile (\<lambda>x. x \<noteq> CHR ''='') v"
    using str_split_hd[of "CHR ''=''" v] ws by simp
  ultimately show ?thesis
    by (simp add: py_index_def cut_value_def full_value_def l dw)
qed

lemma full_value_of_line:
  assumes "CHR ''='' \<notin> set k"
  shows "full_value (k @ ''='' @ v) = v"
  using assms by (induction k) (auto simp: full_value_def)

lemma cut_value_no_eq: "CHR ''='' \<notin> set (full_value l) \<Longrightarrow> cut_value l = full_value l"
  by (auto simp: cut_value_def takeWhile_eq_all_conv)

lemma for_lines_pairs:
  assumes k1: "CHR ''='' \<notin> set k1" and k2: "CHR ''='' \<notin> set k2"
      and excl: "\<And>l. str_startswith l (k1 @ ''='') \<Longrightarrow> \<not> str_startswith l (k2 @ ''='')"
  shows "for_lines (assign_from_line (k1 @ ''='') (k2 @ ''='')) ls (a, b) =
     Returns (case last_line_with (k1 @ ''='') ls of None \<Rightarrow> a | Some l \<Rightarrow> Some (cut_value l),
              case last_line_with (k2 @ ''='') ls of None \<Rightarrow> b | Some l \<Rightarrow> Some (cut_value l))"
proof (induction ls arbitrary: a b)
  case Nil
  then show ?case by simp
next
  case (Cons l ls)
  show ?case
  proof (cases "str_startswith l (k1 @ ''='')")
    case True
    with excl have n2: "\<not> str_startswith l (k2 @ ''='')" by simp
    have step: "assign_from_line (k1 @ ''='') (k2 @ ''='') l (a, b) = Returns (Some (cut_value l), b)"
      using True value_of_line[OF True k1] by (simp add: assign_from_line_def)
    show ?thesis
      using True n2 by (simp add: step Cons.IH split: option.splits)
  next
    case False
    show ?thesis
    proof (cases "str_startswith l (k2 @ ''='')")
      case True
      have step: "assign_from_line (k1 @ ''='') (k2 @ ''='') l (a, b) = Returns (a, Some (cut_value l))"
        using False True value_of_line[OF True k2] by (simp add: assign_from_line_def)
      show ?thesis
        using False True by (simp add: step Cons.IH split: option.splits)
    next
      case f2: False
      have step: "assign_from_line (k1 @ ''='') (k2 @ ''='') l (a, b) = Returns (a, b)"
        using False f2 by (simp add: assign_from_line_def)
      show ?thesis
        using False f2 by (simp add: step Cons.IH split: option.splits)
    qed
  qed
qed

lemma for_lines_one:
  assumes k1: "CHR ''='' \<notin> set k1"
  shows "for_lines (assign_one_from_line (k1 @ ''='')) ls a =
     Returns (case last_line_with (k1 @ ''='') ls of None \<Rightarrow> a | Some l \<Rightarrow> Some (cut_value l))"
proof (induction ls arbitrary: a)
  case Nil
  then show ?case by simp
next
  case (Cons l ls)
  show ?case
  proof (cases "str_startswith l (k1 @ ''='')")
    case True
    have step: "assign_one_from_line (k1 @ ''='') l a = Returns (Some (cut_value l))"
      using True value_of_line[OF True k1] by (simp add: assign_one_from_line_def)
    show ?thesis
      using True by (simp add: step Cons.IH split: option.splits)
  next
    case False
    have step: "assign_one_from_line (k1 @ ''='') l a = Returns a"
      using False by (simp add: assign_one_from_line_def)
    show ?thesis
      using False by (simp add: step Cons.IH split: option.splits)
  qed
qed

lemma parse_bucket_info:
  "parse_pairs ''SOURCE_BUCKET='' ''SOURCE_REGION='' content =
     Returns (map_option cut_value (last_line_with ''SOURCE_BUCKET='' (str_split LF content)),
              map_option cut_value (last_line_with ''SOURCE_REGION='' (str_split LF content)))"
proof -
  have excl: "\<And>l. str_startswith l (''SOURCE_BUCKET'' @ ''='') \<Longrightarrow> \<not> str_startswith l (''SOURCE_REGION'' @ ''='')"
    by (auto simp: str_startswith_def)
  from for_lines_pairs[of "''SOURCE_BUCKET''" "''SOURCE_REGION''" "str_split LF content" None None, OF _ _ excl]
  show ?thesis
    by (simp add: parse_pairs_def split: option.splits)
qed

lemma parse_table_info:
  "parse_pairs ''SOURCE_TABLE='' ''SOURCE_REGION='' content =
     Returns (map_option cut_value (last_line_with ''SOURCE_TABLE='' (str_split LF content)),
              map_option cut_value (last_line_with ''SOURCE_REGION='' (str_split LF content)))"
proof -
  have excl: "\<And>l. str_startswith l (''SOURCE_TABLE'' @ ''='') \<Longrightarrow> \<not> str_startswith l (''SOURCE_REGION'' @ ''='')"
  proof
    fix l assume a: "str_startswith l (''SOURCE_TABLE'' @ ''='')" and b: "str_startswith l (''SOURCE_REGION'' @ ''='')"
    from startswith_decompose[OF a] obtain r where "l = ''SOURCE_TABLE='' @ r" by auto
    with b show False by (simp add: str_startswith_def)
  qed
  from for_lines_pairs[of "''SOURCE_TABLE''" "''SOURCE_REGION''" "str_split LF content" None None, OF _ _ excl]
  show ?thesis
    by (simp add: parse_pairs_def split: option.splits)
qed

lemma last_line_with_startswith:
  "last_line_with p ls = Some l \<Longrightarrow> str_startswith l p"
  by (induction ls) (auto split: option.splits if_splits)

lemma cut_value_key:
  assumes "CHR ''='' \<notin> set k"
  shows "cut_value (k @ ''='' @ v) = takeWhile (\<lambda>c. c \<noteq> CHR ''='') v"
  using full_value_of_line[OF assms, of v] by (simp add: cut_value_def)

text \<open>
  Claim C6, amended.  Let the text read from \<open>bucket-info.txt\<close> have a line that begins with
  \<open>SOURCE_BUCKET=\<close> and one that begins with \<open>SOURCE_REGION=\<close>, and let \<open>vb\<close> and \<open>vr\<close> be the
  text after the prefix on the last such line of each kind.  Then \<open>main\<close> of the bulk
  migration and \<open>load_configuration\<close> of the validator (when \<open>dynamodb-info.txt\<close> can be read
  too) take as source bucket and source region the parts of \<open>vb\<close> and \<open>vr\<close> before their
  first \<open>=\<close>; these are the full values exactly as written when the values contain no \<open>=\<close>.
\<close>

theorem config_values_parsed:
  assumes rdf: "read_file fs ''bucket-info.txt'' = Returns content"
      and lb: "last_line_with ''SOURCE_BUCKET='' (str_split LF content) = Some (''SOURCE_BUCKET='' @ vb)"
      and lr: "last_line_with ''SOURCE_REGION='' (str_split LF content) = Some (''SOURCE_REGION='' @ vr)"
  shows "bulk_main_config fs =
           Returns (takeWhile (\<lambda>c. c \<noteq> CHR ''='') vb, takeWhile (\<lambda>c. c \<noteq> CHR ''='') vr,
                    bulk_target_configs (takeWhile (\<lambda>c. c \<noteq> CHR ''='') vb))
       \<and> (\<forall>content2. read_file fs ''dynamodb-info.txt'' = Returns content2 \<longrightarrow>
            (\<exists>v. load_configuration fs = Returns v
               \<and> v_source_bucket v = takeWhile (\<lambda>c. c \<noteq> CHR ''='') vb
               \<and> v_source_region v = Some (takeWhile (\<lambda>c. c \<noteq> CHR ''='') vr)))
       \<and> (CHR ''='' \<notin> set vb \<longrightarrow> takeWhile (\<lambda>c. c \<noteq> CHR ''='') vb = vb)
       \<and> (CHR ''='' \<notin> set vr \<longrightarrow> takeWhile (\<lambda>c. c \<noteq> CHR ''='') vr = vr)"
proof -
  have cb: "cut_value (''SOURCE_BUCKET='' @ vb) = takeWhile (\<lambda>c. c \<noteq> CHR ''='') vb"
    using cut_value_key[of "''SOURCE_BUCKET''" vb] by simp
  have cr: "cut_value (''SOURCE_REGION='' @ vr) = takeWhile (\<lambda>c. c \<noteq> CHR ''='') vr"
    using cut_value_key[of "''SOURCE_REGION''" vr] by simp
  have parse: "parse_pairs ''SOURCE_BUCKET='' ''SOURCE_REGION='' content =
      Returns (Some (takeWhile (\<lambda>c. c \<noteq> CHR ''='') vb), Some (takeWhile (\<lambda>c. c \<noteq> CHR ''='') vr))"
    unfolding parse_bucket_info lb lr using cb cr by simp
  have bulk: "bulk_main_config fs =
           Returns (takeWhile (\<lambda>c. c \<noteq> CHR ''='') vb, takeWhile (\<lambda>c. c \<noteq> CHR ''='') vr,
                    bulk_target_configs (takeWhile (\<lambda>c. c \<noteq> CHR ''='') vb))"
    by (simp add: bulk_main_config_def rdf parse use_local_def)
  have load: "\<exists>v. load_configuration fs = Returns v
               \<and> v_source_bucket v = takeWhile (\<lambda>c. c \<noteq> CHR ''='') vb
               \<and> v_source_region v = Some (takeWhile (\<lambda>c. c \<noteq> CHR ''='') vr)"
    if "read_file fs ''dynamodb-info.txt'' = Returns content2" for content2
    using for_lines_one[of "''SOURCE_TABLE''" "str_split LF content2" None]
    by (simp add: load_configuration_def rdf parse that)
  have "CHR ''='' \<notin> set s \<longrightarrow> takeWhile (\<lambda>c. c \<noteq> CHR ''='') s = s" for s :: string
    by (auto simp: takeWhile_eq_all_conv)
  with bulk load show ?thesis by blast
qed

lemma demo_files_bucket: "text_read c = c \<Longrightarrow> read_file (demo_files c) ''bucket-info.txt'' = Returns c"
  by (simp add: read_file_def demo_files_def)

lemma read_with_equals: "text_read bucket_info_with_equals = bucket_info_with_equals"
  by (rule text_read_no_CR) (simp add: bucket_info_with_equals_def LF_def CR_def)

lemma split_with_equals:
  "str_split LF bucket_info_with_equals = [''SOURCE_BUCKET=a=b'', ''SOURCE_REGION=us-east-1'', []]"
  by (simp add: bucket_info_with_equals_def LF_def)

text \<open>
  The claim as stated fails for a value that contains \<open>=\<close>: \<open>line.split('=')[1]\<close> is the
  piece between the first and the second \<open>=\<close> of the line, so the line
  \<open>SOURCE_BUCKET=a=b\<close>, whose full value is \<open>a=b\<close>, gives the source bucket \<open>a\<close>.
\<close>

theorem value_with_equals_sign_is_cut:
  "bulk_main_config (demo_files bucket_info_with_equals)
     = Returns (''a'', ''us-east-1'', bulk_target_configs ''a'')
   \<and> str_split LF bucket_info_with_equals = [''SOURCE_BUCKET=a=b'', ''SOURCE_REGION=us-east-1'', []]
   \<and> full_value ''SOURCE_BUCKET=a=b'' = ''a=b''"
proof -
  have p: "parse_pairs ''SOURCE_BUCKET='' ''SOURCE_REGION='' bucket_info_with_equals
           = Returns (Some ''a'', Some ''us-east-1'')"
    unfolding parse_pairs_def split_with_equals
    by (simp add: assign_from_line_def str_startswith_def py_index_def)
  have "bulk_main_config (demo_files bucket_info_with_equals)
     = Returns (''a'', ''us-east-1'', bulk_target_configs ''a'')"
    by (simp add: bulk_main_config_def demo_files_bucket[OF read_with_equals] p use_local_def)
  moreover have "full_value ''SOURCE_BUCKET=a=b'' = ''a=b''"
    by (simp add: full_value_def)
  ultimately show ?thesis using split_with_equals by simp
qed

lemma read_plain: "text_read bucket_info_plain = bucket_info_plain"
  by (rule text_read_no_CR) (simp add: bucket_info_plain_def LF_def CR_def)

lemma split_plain:
  "str_split LF bucket_info_plain = [''SOURCE_BUCKET=demo-source-1'', ''SOURCE_REGION=us-east-1'', []]"
  by (simp add: bucket_info_plain_def LF_def)

theorem config_values_parsed_witness:
  "bulk_main_config (demo_files bucket_info_plain)
     = Returns (''demo-source-1'', ''us-east-1'', bulk_target_configs ''demo-source-1'')
   \<and> (\<exists>v. load_configuration (demo_files bucket_info_plain) = Returns v
          \<and> v_source_bucket v = ''demo-source-1'' \<and> v_source_region v = Some ''us-east-1'')"
proof -
  have rd2: "read_file (demo_files bucket_info_plain) ''dynamodb-info.txt''
      = Returns (text_read (table_info_text ''migration-demo-user-data'' ''us-east-1''))"
    by (simp add: read_file_def demo_files_def)
  have lb: "last_line_with ''SOURCE_BUCKET='' (str_split LF bucket_info_plain)
      = Some (''SOURCE_BUCKET='' @ ''demo-source-1'')"
    unfolding split_plain by (simp add: str_startswith_def)
  have lr: "last_line_with ''SOURCE_REGION='' (str_split LF bucket_info_plain)
      = Some (''SOURCE_REGION='' @ ''us-east-1'')"
    unfolding split_plain by (simp add: str_startswith_def)
  from config_values_parsed[OF demo_files_bucket[OF read_plain] lb lr] rd2 show ?thesis
    by simp
qed

subsection \<open>The hand-over of the table names\<close>

lemma table_info_tail:
  "str_split LF (''TARGET_TABLES=('' @ [LF]
     @ concat (map (\<lambda>region. ''    '' @ ''migration-demo'' @ ''-target-'' @ region
                                @ ''-user-data'' @ [LF])
                   [''us-west-2'', ''eu-west-1''])
     @ '')'' @ [LF])
   = [''TARGET_TABLES=('', ''    migration-demo-target-us-west-2-user-data'',
      ''    migration-demo-target-eu-west-1-user-data'', '')'', []]"
  by (simp add: LF_def)

lemma table_info_lines:
  assumes "LF \<notin> set st" "LF \<notin> set sr"
  shows "str_split LF (table_info_text st sr) =
     [''SOURCE_TABLE='' @ st, ''SOURCE_REGION='' @ sr,
      ''TARGET_TABLES=('', ''    migration-demo-target-us-west-2-user-data'',
      ''    migration-demo-target-eu-west-1-user-data'', '')'', []]"
proof -
  have a: "LF \<notin> set (''SOURCE_TABLE='' @ st)" using assms by (simp add: LF_def)
  have b: "LF \<notin> set (''SOURCE_REGION='' @ sr)" using assms by (simp add: LF_def)
  have "table_info_text st sr =
      (''SOURCE_TABLE='' @ st) @ LF # ((''SOURCE_REGION='' @ sr) @ LF #
        (''TARGET_TABLES=('' @ [LF]
     @ concat (map (\<lambda>region. ''    '' @ ''migration-demo'' @ ''-target-'' @ region
                                @ ''-user-data'' @ [LF])
                   [''us-west-2'', ''eu-west-1''])
     @ '')'' @ [LF]))"
    by (simp add: table_info_text_def)
  then show ?thesis
    by (simp only: str_split_append[OF a] str_split_append[OF b] table_info_tail)
qed

lemma table_info_no_CR:
  assumes "CR \<notin> set st" "CR \<notin> set sr"
  shows "CR \<notin> set (table_info_text st sr)"
  using assms by (simp add: table_info_text_def CR_def LF_def)

lemma read_saved:
  "read_file (save_table_info st sr fs) ''dynamodb-info.txt'' = Returns (text_read (table_info_text st sr))"
  by (simp add: read_file_def save_table_info_def write_file_def text_write_def)

text \<open>
  Claim C8, amended.  For every source table name and source region that contain no \<open>=\<close>,
  no line feed and no carriage return, writing \<open>dynamodb-info.txt\<close> with the save step of
  the create-tables script and reading it with \<open>main\<close> of the stream-sync script gives back
  the same two values.
\<close>

theorem table_info_round_trip:
  assumes st: "CHR ''='' \<notin> set st" "LF \<notin> set st" "CR \<notin> set st"
      and sr: "CHR ''='' \<notin> set sr" "LF \<notin> set sr" "CR \<notin> set sr"
  shows "stream_sync_main_config (save_table_info st sr fs) = Returns (st, sr, stream_sync_target_configs)"
proof -
  have rd: "read_file (save_table_info st sr fs) ''dynamodb-info.txt'' = Returns (table_info_text st sr)"
    using text_read_no_CR[OF table_info_no_CR[OF st(3) sr(3)]] by (simp add: read_saved)
  have lt: "last_line_with ''SOURCE_TABLE='' (str_split LF (table_info_text st sr)) = Some (''SOURCE_TABLE='' @ st)"
    unfolding table_info_lines[OF st(2) sr(2)] by (simp add: str_startswith_def)
  have lr: "last_line_with ''SOURCE_REGION='' (str_split LF (table_info_text st sr)) = Some (''SOURCE_REGION='' @ sr)"
    unfolding table_info_lines[OF st(2) sr(2)] by (simp add: str_startswith_def)
  have ct: "cut_value (''SOURCE_TABLE='' @ st) = st"
    using cut_value_key[of "''SOURCE_TABLE''" st] st(1) by (auto simp: takeWhile_eq_all_conv)
  have cr: "cut_value (''SOURCE_REGION='' @ sr) = sr"
    using cut_value_key[of "''SOURCE_REGION''" sr] sr(1) by (auto simp: takeWhile_eq_all_conv)
  have "parse_pairs ''SOURCE_TABLE='' ''SOURCE_REGION='' (table_info_text st sr) = Returns (Some st, Some sr)"
    unfolding parse_table_info lt lr using ct cr by simp
  then show ?thesis
    by (simp add: stream_sync_main_config_def rd use_local_def)
qed

theorem table_info_round_trip_witness:
  "stream_sync_main_config (create_tables_main_save no_files)
     = Returns (''migration-demo-user-data'', ''us-east-1'', stream_sync_target_configs)"
  unfolding create_tables_main_save_def
  by (rule table_info_round_trip) (simp_all add: LF_def CR_def)

text \<open>
  The claim as stated excludes \<open>=\<close> and the newline character only.  A carriage return in
  the table name is written as it is and comes back from the text-mode read as a line feed,
  so the name \<open>a CR b\<close> is read back as \<open>a\<close>.
\<close>

theorem carriage_return_breaks_round_trip:
  "stream_sync_main_config (save_table_info table_name_with_cr ''us-east-1'' no_files)
     = Returns (''a'', ''us-east-1'', stream_sync_target_configs)
   \<and> CHR ''='' \<notin> set table_name_with_cr \<and> LF \<notin> set table_name_with_cr
   \<and> table_name_with_cr \<noteq> ''a''"
proof -
  have rd: "text_read (table_info_text table_name_with_cr ''us-east-1'')
     = ''SOURCE_TABLE=a'' @ LF # ''b'' @ LF # ''SOURCE_REGION=us-east-1'' @ LF # ''TARGET_TABLES=('' @ LF #
       ''    migration-demo-target-us-west-2-user-data'' @ LF #
       ''    migration-demo-target-eu-west-1-user-data'' @ LF # '')'' @ [LF]"
    by (simp add: table_info_text_def table_name_with_cr_def CR_def LF_def)
  have sp: "str_split LF (''SOURCE_TABLE=a'' @ LF # ''b'' @ LF # ''SOURCE_REGION=us-east-1'' @ LF # ''TARGET_TABLES=('' @ LF #
       ''    migration-demo-target-us-west-2-user-data'' @ LF #
       ''    migration-demo-target-eu-west-1-user-data'' @ LF # '')'' @ [LF])
     = [''SOURCE_TABLE=a'', ''b'', ''SOURCE_REGION=us-east-1'', ''TARGET_TABLES=('',
        ''    migration-demo-target-us-west-2-user-data'',
        ''    migration-demo-target-eu-west-1-user-data'', '')'', []]"
    by (simp add: LF_def)
  have p: "parse_pairs ''SOURCE_TABLE='' ''SOURCE_REGION='' (text_read (table_info_text table_name_with_cr ''us-east-1''))
     = Returns (Some ''a'', Some ''us-east-1'')"
    unfolding rd parse_pairs_def sp
    by (simp add: assign_from_line_def str_startswith_def py_index_def)
  have "stream_sync_main_config (save_table_info table_name_with_cr ''us-east-1'' no_files)
     = Returns (''a'', ''us-east-1'', stream_sync_target_configs)"
    by (simp add: stream_sync_main_config_def read_saved p use_local_def)
  then show ?thesis
    by (simp add: table_name_with_cr_def LF_def CR_def)
qed

subsection \<open>The target buckets of the three scripts\<close>

text \<open>
  Claim C7.  For every source bucket name, the target lists built by \<open>main\<close> of the bulk
  migration, by \<open>main\<close> of the replication setup and by \<open>load_configuration\<close> of the validator
  are the same list, and its (bucket, region) pairs are the ones of the specification: the
  name with \<open>source\<close> replaced by \<open>target-us-west-2\<close> and by \<open>target-eu-west-1\<close>, in this
  order, each with its region.
\<close>

theorem target_configs_agree:
  "bulk_target_configs b = replication_target_configs b
   \<and> replication_target_configs b = validator_s3_target_configs b
   \<and> target_pairs (bulk_target_configs b) = spec_target_pairs b
   \<and> target_pairs (replication_target_configs b) = spec_target_pairs b
   \<and> target_pairs (validator_s3_target_configs b) = spec_target_pairs b"
  by (simp add: bulk_target_configs_def replication_target_configs_def validator_s3_target_configs_def
        target_pairs_def spec_target_pairs_def)

subsection \<open>Error codes that mean "already done"\<close>

text \<open>
  Claim C5, amended.  When the \<open>try\<close> block of one of the three functions raises a client
  error, the handler compares its code with one expected code.  \<open>create_dynamodb_table\<close>
  returns \<open>True\<close> for \<open>ResourceInUseException\<close> and \<open>False\<close> for every other code.
  \<open>delete_all_object_versions\<close> returns normally and prints "already deleted" for
  \<open>NoSuchBucket\<close>, and the error for every other code.  \<open>create_replication_role\<close> returns
  \<open>None\<close> for every code other than \<open>EntityAlreadyExists\<close>; for \<open>EntityAlreadyExists\<close> it
  looks the existing role up with \<open>get_role\<close> and returns the ARN when the look-up returns
  one, and the exception of the look-up leaves the method when the look-up raises.
\<close>

theorem already_done_codes:
  "(create_dynamodb_table_try db table_name rgn = Raises (ClientError code msg) \<longrightarrow>
      create_dynamodb_table db table_name rgn = (code = ''ResourceInUseException''))
   \<and> (fst (delete_all_object_versions_try s3 bucket_name) = Raises (ClientError code msg) \<longrightarrow>
      delete_all_object_versions s3 bucket_name =
        (Returns (),
         snd (delete_all_object_versions_try s3 bucket_name) @
           [if code = ''NoSuchBucket'' then ''Bucket '' @ bucket_name @ '' already deleted''
            else ''Error deleting '' @ bucket_name @ '': '' @ msg]))
   \<and> (create_replication_role_try iam = Raises (ClientError code msg) \<longrightarrow>
      create_replication_role iam =
        (if code = ''EntityAlreadyExists''
         then (case get_role iam role_name of
                 Raises e \<Rightarrow> Raises e
               | Returns role_arn \<Rightarrow> Returns (Some role_arn))
         else Returns None))"
  by (auto simp: create_dynamodb_table_def delete_all_object_versions_def create_replication_role_def
        split: prod.splits outcome.splits)

theorem already_done_codes_witness:
  "create_dynamodb_table_try db_table_in_use ''migration-demo-user-data'' ''us-east-1''
     = Raises (ClientError ''ResourceInUseException'' ''Table already exists'')
   \<and> create_dynamodb_table db_table_in_use ''migration-demo-user-data'' ''us-east-1'' = True
   \<and> fst (delete_all_object_versions_try s3_no_bucket ''demo-source'')
     = Raises (ClientError ''NoSuchBucket'' ''The specified bucket does not exist'')
   \<and> delete_all_object_versions s3_no_bucket ''demo-source''
     = (Returns (), [''Bucket demo-source already deleted''])
   \<and> create_replication_role_try iam_role_exists = Raises (ClientError ''EntityAlreadyExists'' ''Role exists'')
   \<and> create_replication_role iam_role_exists
     = Returns (Some ''arn:aws:iam::123456789012:role/S3-Replication-Role'')"
proof -
  have a: "create_dynamodb_table_try db_table_in_use ''migration-demo-user-data'' ''us-east-1''
     = Raises (ClientError ''ResourceInUseException'' ''Table already exists'')"
    by (simp add: create_dynamodb_table_try_def db_table_in_use_def)
  have b: "delete_all_object_versions_try s3_no_bucket ''demo-source''
     = (Raises (ClientError ''NoSuchBucket'' ''The specified bucket does not exist''), [])"
    by (simp add: delete_all_object_versions_try_def s3_no_bucket_def)
  have c: "create_replication_role_try iam_role_exists = Raises (ClientError ''EntityAlreadyExists'' ''Role exists'')"
    by (simp add: create_replication_role_try_def iam_role_exists_def)
  have g: "get_role iam_role_exists role_name = Returns ''arn:aws:iam::123456789012:role/S3-Replication-Role''"
    by (simp add: iam_role_exists_def)
  from already_done_codes[of db_table_in_use "''migration-demo-user-data''" "''us-east-1''"
         "''ResourceInUseException''" "''Table already exists''"] a
  have 1: "create_dynamodb_table db_table_in_use ''migration-demo-user-data'' ''us-east-1'' = True"
    by simp
  show ?thesis
    using a b c g 1
    by (simp add: delete_all_object_versions_def create_replication_role_def)
qed

text \<open>
  The claim as stated has \<open>create_replication_role\<close> return the ARN of the existing role
  whenever the code is \<open>EntityAlreadyExists\<close>.  The look-up of the role is made inside the
  handler and nothing catches what it raises: when \<open>create_role\<close> raises
  \<open>EntityAlreadyExists\<close> and \<open>get_role\<close> is denied, the method returns no ARN but raises.
\<close>

theorem role_lookup_failure_escapes:
  "create_replication_role_try iam_lookup_denied
     = Raises (ClientError ''EntityAlreadyExists'' ''Role exists'')
   \<and> create_replication_role iam_lookup_denied
     = Raises (ClientError ''AccessDenied'' ''Access Denied'')"
  by (simp add: create_replication_role_def create_replication_role_try_def iam_lookup_denied_def)

subsection \<open>Floats to decimals\<close>

lemma convert_idem: "convert_floats_to_decimal fs (convert_floats_to_decimal fs v) = convert_floats_to_decimal fs v"
  by (induction fs v rule: convert_floats_to_decimal.induct) (auto)

lemma convert_no_reachable: "\<not> float_reachable (convert_floats_to_decimal fs v)"
  by (induction fs v rule: convert_floats_to_decimal.induct) (auto simp: list_ex_iff)

text \<open>
  Claim C10, amended.  \<open>_convert_floats_to_decimal\<close> maps a float to the \<open>Decimal\<close> of its
  text, returns every value that is neither float nor \<open>dict\<close> nor \<open>list\<close> as it is (a tuple
  or a set with its contents untouched), keeps the keys of a dictionary and their order
  and converts its values, keeps the order and the length of a list and converts its
  elements; its output has no float that is reached through list elements and dictionary
  values, and applying it twice equals applying it once.
\<close>

theorem convert_floats_properties:
  "convert_floats_to_decimal fs (PFloat x) = PDecimal (fs x)
   \<and> convert_floats_to_decimal fs (PDecimal d) = PDecimal d
   \<and> convert_floats_to_decimal fs (PInt i) = PInt i
   \<and> convert_floats_to_decimal fs (PStr s) = PStr s
   \<and> convert_floats_to_decimal fs (PBool b) = PBool b
   \<and> convert_floats_to_decimal fs PNone = PNone
   \<and> convert_floats_to_decimal fs (PTuple vs) = PTuple vs
   \<and> convert_floats_to_decimal fs (PSet vs) = PSet vs
   \<and> (\<exists>items'. convert_floats_to_decimal fs (PDict items) = PDict items'
         \<and> map fst items' = map fst items
         \<and> map snd items' = map (convert_floats_to_decimal fs) (map snd items))
   \<and> convert_floats_to_decimal fs (PList vs) = PList (map (convert_floats_to_decimal fs) vs)
   \<and> length (map (convert_floats_to_decimal fs) vs) = length vs
   \<and> \<not> float_reachable (convert_floats_to_decimal fs v)
   \<and> convert_floats_to_decimal fs (convert_floats_to_decimal fs v) = convert_floats_to_decimal fs v"
  using convert_idem[of fs v] convert_no_reachable[of fs v]
  by (simp add: comp_def)

text \<open>
  The claim as stated says that the output contains no float anywhere.  A float inside a
  container that is neither \<open>dict\<close> nor \<open>list\<close> stays where it is: the item
  \<open>{'scores': (1.5,)}\<close> is returned unchanged.
\<close>

theorem float_in_tuple_survives:
  "convert_floats_to_decimal demo_float_str (PDict [(PStr ''scores'', PTuple [PFloat one_and_a_half])])
     = PDict [(PStr ''scores'', PTuple [PFloat one_and_a_half])]
   \<and> contains_float (convert_floats_to_decimal demo_float_str
        (PDict [(PStr ''scores'', PTuple [PFloat one_and_a_half])]))"
  by simp

subsection \<open>The validation of the bulk migration\<close>

lemma dict_get_set: "dict_get (dict_set k v d) k' = (if k' = k then Some v else dict_get d k')"
  by (induction d) auto















subsection \<open>The validation of the table synchronisation\<close>

lemma check_table_returns_iff: "(\<exists>rep. check_table p n t = Returns rep) \<longleftrightarrow> table_check_returns p t"
  by (auto simp: check_table_def table_check_returns_def split: outcome.splits)

lemma check_table_status:
  "check_table p n t = Returns rep \<Longrightarrow>
     \<exists>items. scan_items p (table_region t) (table t) = Returns items
        \<and> (table_status rep = ''SYNCED'' \<longleftrightarrow> length items = n)"
  by (auto simp: check_table_def split: outcome.splits if_splits)

lemma check_tables_other:
  "check_tables p n ts s res = (ok, res') \<Longrightarrow> k \<notin> table ` set ts \<Longrightarrow>
     dict_get (sync_targets res') k = dict_get (sync_targets res) k"
proof (induction ts arbitrary: s res)
  case Nil
  then show ?case by simp
next
  case (Cons t ts)
  then show ?case
    by (cases "check_table p n t") (auto simp: dict_get_set)
qed

lemma check_tables_result:
  assumes "distinct (map table ts)" "check_tables p n ts s res = (ok, res')"
  shows "(\<forall>t\<in>set ts. dict_get (sync_targets res') (table t) =
            (case check_table p n t of
               Raises e \<Rightarrow> dict_get (sync_targets res) (table t)
             | Returns rep \<Rightarrow> Some rep))
       \<and> ok = (s \<and> list_all (table_synced p n) ts)"
  using assms
proof (induction ts arbitrary: s res)
  case Nil
  then show ?case by simp
next
  case (Cons t ts)
  from Cons.prems(1) have d: "distinct (map table ts)" and nt: "table t \<notin> table ` set ts"
    by auto
  have other: "table t' \<noteq> table t" if "t' \<in> set ts" for t'
    using nt that by (metis imageI)
  show ?case
  proof (cases "check_table p n t")
    case (Raises e)
    with Cons.prems(2) have rest: "check_tables p n ts False res = (ok, res')" by simp
    have ts: "\<not> table_synced p n t" using Raises by (simp add: table_synced_def)
    from Cons.IH[OF d rest] check_tables_other[OF rest nt] Raises ts show ?thesis
      by auto
  next
    case (Returns rep)
    let ?res1 = "res\<lparr>sync_targets := dict_set (table t) rep (sync_targets res)\<rparr>"
    let ?s1 = "if table_status rep = ''SYNCED'' then s else False"
    from Cons.prems(2) Returns have rest: "check_tables p n ts ?s1 ?res1 = (ok, res')" by simp
    from Cons.IH[OF d rest]
    have ih1: "\<forall>t'\<in>set ts. dict_get (sync_targets res') (table t') =
            (case check_table p n t' of
               Raises e \<Rightarrow> dict_get (sync_targets ?res1) (table t')
             | Returns rep \<Rightarrow> Some rep)"
      and ih2: "ok = (?s1 \<and> list_all (table_synced p n) ts)"
      by auto
    have a: "dict_get (sync_targets res') (table t) = Some rep"
      using check_tables_other[OF rest nt] by (simp add: dict_get_set)
    have b: "\<forall>t'\<in>set ts. dict_get (sync_targets res') (table t') =
            (case check_table p n t' of
               Raises e \<Rightarrow> dict_get (sync_targets res) (table t')
             | Returns rep \<Rightarrow> Some rep)"
      using ih1 other by (auto simp: dict_get_set split: outcome.splits)
    have ts: "table_synced p n t = (table_status rep = ''SYNCED'')"
      using Returns by (simp add: table_synced_def)
    from a b ih2 Returns ts show ?thesis
      by auto
  qed
qed

lemma demo_sync_validation:
  "validate_dynamodb_sync demo_provider demo_validator MigrationValidator_init
     = (False,
        \<lparr>bulk_source_count = None, bulk_targets = [], bulk_status = None,
         sync_source_count = Some 1,
         sync_targets =
           [(''migration-demo-target-us-west-2-user-data'', \<lparr>table_count = 1, table_status = ''SYNCED''\<rparr>)],
         sync_status = Some ''OUT_OF_SYNC''\<rparr>)"
proof -
  have src: "scan_source demo_provider demo_validator = Returns [PDict [(PStr ''user_id'', PStr ''u1'')]]"
    by (simp add: scan_source_def get_attr_def demo_provider_def demo_validator_def)
  have t1: "check_table demo_provider (Suc 0)\<lparr>table = ''migration-demo-target-us-west-2-user-data'', table_region = ''us-west-2''\<rparr>
      = Returns \<lparr>table_count = 1, table_status = ''SYNCED''\<rparr>"
    by (simp add: check_table_def demo_provider_def)
  have t2: "check_table demo_provider (Suc 0)\<lparr>table = ''migration-demo-target-eu-west-1-user-data'', table_region = ''eu-west-1''\<rparr>
      = Raises (ClientError ''ResourceNotFoundException'' ''Requested resource not found'')"
    by (simp add: check_table_def demo_provider_def)
  have v: "dynamodb_targets demo_validator =
     [\<lparr>table = ''migration-demo-target-us-west-2-user-data'', table_region = ''us-west-2''\<rparr>,
      \<lparr>table = ''migration-demo-target-eu-west-1-user-data'', table_region = ''eu-west-1''\<rparr>]"
    by (simp add: demo_validator_def validator_dynamodb_target_configs_def)
  show ?thesis
    by (simp add: validate_dynamodb_sync_def src v t1 t2 MigrationValidator_init_def Let_def)
qed

lemma sync_validation_entries:
  assumes dist: "distinct (map table (dynamodb_targets v))" and ne: "dynamodb_targets v \<noteq> []"
  shows "(let (ok, res) = validate_dynamodb_sync p v MigrationValidator_init in
            (\<forall>t\<in>set (dynamodb_targets v). dict_get (sync_targets res) (table t) =
               (case scan_source p v of
                  Raises e \<Rightarrow> None
                | Returns source_items \<Rightarrow>
                    (case check_table p (length source_items) t of
                       Raises e \<Rightarrow> None
                     | Returns rep \<Rightarrow> Some rep)))
          \<and> (\<forall>t\<in>set (dynamodb_targets v). \<forall>rep. dict_get (sync_targets res) (table t) = Some rep \<longrightarrow>
               (\<exists>source_items target_items.
                  scan_source p v = Returns source_items
                \<and> scan_items p (table_region t) (table t) = Returns target_items
                \<and> (table_status rep = ''SYNCED'' \<longleftrightarrow> length target_items = length source_items)))
          \<and> (ok \<longleftrightarrow> (\<forall>t\<in>set (dynamodb_targets v).
                 (\<exists>rep. dict_get (sync_targets res) (table t) = Some rep \<and> table_status rep = ''SYNCED'')
                 \<and> table_check_returns p t)))"
proof -
  from ne obtain t0 where t0: "t0 \<in> set (dynamodb_targets v)" by (cases "dynamodb_targets v") auto
  have init: "sync_targets MigrationValidator_init = []" by (simp add: MigrationValidator_init_def)
  show ?thesis
  proof (cases "scan_source p v")
    case (Raises e)
    then have "validate_dynamodb_sync p v MigrationValidator_init
        = (False, MigrationValidator_init\<lparr>sync_status := Some ''ERROR''\<rparr>)"
      by (simp add: validate_dynamodb_sync_def sync_error_def)
    with t0 Raises show ?thesis by (auto simp: init)
  next
    case (Returns source_items)
    let ?n = "length source_items"
    let ?res1 = "MigrationValidator_init\<lparr>sync_source_count := Some ?n, sync_targets := []\<rparr>"
    obtain ok res2 where loop: "check_tables p ?n (dynamodb_targets v) True ?res1 = (ok, res2)"
      by (cases "check_tables p ?n (dynamodb_targets v) True ?res1")
    with Returns have val: "validate_dynamodb_sync p v MigrationValidator_init
        = (ok, res2\<lparr>sync_status := Some (if ok then ''SYNCED'' else ''OUT_OF_SYNC'')\<rparr>)"
      by (simp add: validate_dynamodb_sync_def Let_def)
    from check_tables_result[OF dist loop]
    have marks: "\<forall>t\<in>set (dynamodb_targets v). dict_get (sync_targets res2) (table t) =
            (case check_table p ?n t of Raises e \<Rightarrow> None | Returns rep \<Rightarrow> Some rep)"
      and okv: "ok = list_all (table_synced p ?n) (dynamodb_targets v)"
      by (auto split: outcome.splits)
    have part0: "\<forall>t\<in>set (dynamodb_targets v). dict_get (sync_targets res2) (table t) =
               (case scan_source p v of
                  Raises e \<Rightarrow> None
                | Returns source_items \<Rightarrow>
                    (case check_table p (length source_items) t of
                       Raises e \<Rightarrow> None
                     | Returns rep \<Rightarrow> Some rep))"
      using marks Returns by simp
    have part1: "\<forall>t\<in>set (dynamodb_targets v). \<forall>rep. dict_get (sync_targets res2) (table t) = Some rep \<longrightarrow>
               (\<exists>source_items target_items.
                  scan_source p v = Returns source_items
                \<and> scan_items p (table_region t) (table t) = Returns target_items
                \<and> (table_status rep = ''SYNCED'' \<longleftrightarrow> length target_items = length source_items))"
    proof (intro ballI allI impI)
      fix t rep
      assume t: "t \<in> set (dynamodb_targets v)" and g: "dict_get (sync_targets res2) (table t) = Some rep"
      from marks t g have "check_table p ?n t = Returns rep"
        by (auto split: outcome.splits)
      from check_table_status[OF this] Returns
      show "\<exists>source_items target_items.
                  scan_source p v = Returns source_items
                \<and> scan_items p (table_region t) (table t) = Returns target_items
                \<and> (table_status rep = ''SYNCED'' \<longleftrightarrow> length target_items = length source_items)"
        by auto
    qed
    have part2: "ok \<longleftrightarrow> (\<forall>t\<in>set (dynamodb_targets v).
                 (\<exists>rep. dict_get (sync_targets res2) (table t) = Some rep \<and> table_status rep = ''SYNCED'')
                 \<and> table_check_returns p t)"
    proof -
      have "table_synced p ?n t \<longleftrightarrow>
              ((\<exists>rep. dict_get (sync_targets res2) (table t) = Some rep \<and> table_status rep = ''SYNCED'')
                 \<and> table_check_returns p t)" if "t \<in> set (dynamodb_targets v)" for t
        using marks that check_table_returns_iff[of p ?n t]
        by (cases "check_table p ?n t") (auto simp: table_synced_def)
      then show ?thesis
        unfolding okv list_all_iff by blast
    qed
    show ?thesis
      unfolding val using part0 part1 part2 by simp
  qed
qed

lemma table_synced_iff:
  "table_synced p n t \<longleftrightarrow>
     (dynamodb_resource p (table_region t) = Returns ()
      \<and> (\<exists>target_items. scan_items p (table_region t) (table t) = Returns target_items
            \<and> length target_items = n))"
  by (auto simp: table_synced_def check_table_def split: outcome.splits)

lemma check_tables_fst:
  "fst (check_tables p n ts s res) = (s \<and> list_all (table_synced p n) ts)"
proof (induction ts arbitrary: s res)
  case Nil
  then show ?case by simp
next
  case (Cons t ts)
  show ?case
  proof (cases "check_table p n t")
    case (Raises e)
    then have "\<not> table_synced p n t" by (simp add: table_synced_def)
    with Raises Cons.IH show ?thesis by simp
  next
    case (Returns rep)
    then have "table_synced p n t = (table_status rep = ''SYNCED'')"
      by (simp add: table_synced_def)
    with Returns Cons.IH show ?thesis by auto
  qed
qed

lemma sync_validation_returns:
  "fst (validate_dynamodb_sync p v res) \<longleftrightarrow>
     (\<exists>source_items. scan_source p v = Returns source_items
        \<and> (\<forall>t\<in>set (dynamodb_targets v).
              dynamodb_resource p (table_region t) = Returns ()
              \<and> (\<exists>target_items. scan_items p (table_region t) (table t) = Returns target_items
                    \<and> length target_items = length source_items)))"
proof (cases "scan_source p v")
  case (Raises e)
  then show ?thesis by (simp add: validate_dynamodb_sync_def sync_error_def)
next
  case (Returns source_items)
  let ?n = "length source_items"
  let ?res1 = "res\<lparr>sync_source_count := Some ?n, sync_targets := []\<rparr>"
  have "fst (validate_dynamodb_sync p v res) = fst (check_tables p ?n (dynamodb_targets v) True ?res1)"
    using Returns by (simp add: validate_dynamodb_sync_def Let_def split: prod.splits)
  then show ?thesis
    using Returns by (simp add: check_tables_fst list_all_iff table_synced_iff)
qed

text \<open>
  Claim C4.  Let \<open>validate_dynamodb_sync\<close> run on a new validator.  It returns \<open>True\<close>
  exactly when the scan of the source table returned and, for every target, the resource
  of its region could be made and the scan of its table returned as many items as the
  scan of the source table.  When the validator has at least one target and no two
  targets with the same table name, the results hold afterwards the entry of
  \<open>check_table\<close> for every target whose check returned after a scan of the source table
  that returned, and no entry for another target; an entry that the results hold for a
  target table has the status \<open>SYNCED\<close> exactly when the scan of that table gave as many
  items as the scan of the source table; and the method returns \<open>True\<close> exactly when, for
  every target table, the results hold an entry with the status \<open>SYNCED\<close> and the check of
  that table raised no exception.
\<close>

theorem sync_validation_marks:
  "(let (ok, res) = validate_dynamodb_sync p v MigrationValidator_init in
      (ok \<longleftrightarrow>
         (\<exists>source_items. scan_source p v = Returns source_items
            \<and> (\<forall>t\<in>set (dynamodb_targets v).
                  dynamodb_resource p (table_region t) = Returns ()
                  \<and> (\<exists>target_items. scan_items p (table_region t) (table t) = Returns target_items
                        \<and> length target_items = length source_items))))
    \<and> (distinct (map table (dynamodb_targets v)) \<and> dynamodb_targets v \<noteq> [] \<longrightarrow>
          (\<forall>t\<in>set (dynamodb_targets v). dict_get (sync_targets res) (table t) =
             (case scan_source p v of
                Raises e \<Rightarrow> None
              | Returns source_items \<Rightarrow>
                  (case check_table p (length source_items) t of
                     Raises e \<Rightarrow> None
                   | Returns rep \<Rightarrow> Some rep)))
        \<and> (\<forall>t\<in>set (dynamodb_targets v). \<forall>rep. dict_get (sync_targets res) (table t) = Some rep \<longrightarrow>
             (\<exists>source_items target_items.
                scan_source p v = Returns source_items
              \<and> scan_items p (table_region t) (table t) = Returns target_items
              \<and> (table_status rep = ''SYNCED'' \<longleftrightarrow> length target_items = length source_items)))
        \<and> (ok \<longleftrightarrow> (\<forall>t\<in>set (dynamodb_targets v).
               (\<exists>rep. dict_get (sync_targets res) (table t) = Some rep \<and> table_status rep = ''SYNCED'')
               \<and> table_check_returns p t))))"
proof -
  obtain ok res where val: "validate_dynamodb_sync p v MigrationValidator_init = (ok, res)"
    by (cases "validate_dynamodb_sync p v MigrationValidator_init")
  have a: "ok \<longleftrightarrow>
         (\<exists>source_items. scan_source p v = Returns source_items
            \<and> (\<forall>t\<in>set (dynamodb_targets v).
                  dynamodb_resource p (table_region t) = Returns ()
                  \<and> (\<exists>target_items. scan_items p (table_region t) (table t) = Returns target_items
                        \<and> length target_items = length source_items)))"
    using sync_validation_returns[of p v MigrationValidator_init] by (simp add: val)
  show ?thesis
  proof (cases "distinct (map table (dynamodb_targets v)) \<and> dynamodb_targets v \<noteq> []")
    case True
    then have d: "distinct (map table (dynamodb_targets v))" and n: "dynamodb_targets v \<noteq> []" by auto
    from sync_validation_entries[OF d n, of p] a True show ?thesis
      by (simp add: val)
  next
    case False
    from False a show ?thesis
      unfolding val by (simp only: prod.case Let_def) blast
  qed
qed

theorem sync_validation_marks_witness:
  "distinct (map table (dynamodb_targets demo_validator)) \<and> dynamodb_targets demo_validator \<noteq> []
   \<and> fst (validate_dynamodb_sync demo_provider demo_validator MigrationValidator_init) = False
   \<and> map_option table_status
        (dict_get (sync_targets (snd (validate_dynamodb_sync demo_provider demo_validator MigrationValidator_init)))
           ''migration-demo-target-us-west-2-user-data'') = Some ''SYNCED''
   \<and> dict_get (sync_targets (snd (validate_dynamodb_sync demo_provider demo_validator MigrationValidator_init)))
           ''migration-demo-target-eu-west-1-user-data'' = None
   \<and> \<not> table_check_returns demo_provider
          \<lparr>table = ''migration-demo-target-eu-west-1-user-data'', table_region = ''eu-west-1''\<rparr>"
proof -
  have d: "distinct (map table (dynamodb_targets demo_validator))" and n: "dynamodb_targets demo_validator \<noteq> []"
    by (simp_all add: demo_validator_def validator_dynamodb_target_configs_def)
  have r: "\<not> table_check_returns demo_provider
          \<lparr>table = ''migration-demo-target-eu-west-1-user-data'', table_region = ''eu-west-1''\<rparr>"
    by (simp add: table_check_returns_def demo_provider_def)
  from sync_validation_marks[of demo_provider demo_validator] d n r
  show ?thesis
    by (simp add: demo_sync_validation)
qed

end
